theory Spec2Isabelle
  imports Complex_Main "HOL-Library.Word" "HOL-Library.AList" "HOL-Library.Multiset"
begin

section \<open>Retry backoff\<close>

text \<open>
  Go's \<open>int\<close> (on 64-bit platforms) and \<open>time.Duration\<close> (an \<open>int64\<close> counting
  nanoseconds) are 64-bit two's-complement integers: arithmetic wraps around, and a value
  is read with \<open>sint\<close>.  A shift by a negative count panics at run time; a shift count
  of 64 or more yields 0, which is what \<open>push_bit\<close> on a 64-bit word does.
\<close>

type_synonym go_int = "64 word"
type_synonym Duration = "64 word"

datatype panic = NegativeShiftAmount

definition Millisecond :: Duration where
  "Millisecond = 1000000"

definition CalculateBackoff :: "go_int \<Rightarrow> go_int \<Rightarrow> string \<Rightarrow> panic + Duration" where
  "CalculateBackoff baseDelayMs attempt strategy =
     (if attempt = 0 then Inr 0
      else
        let baseDelay = baseDelayMs * Millisecond in
        if strategy = ''EXPONENTIAL'' then
          (if sint (attempt - 1) < 0 then Inl NegativeShiftAmount
           else
             let multiplier = push_bit (nat (sint (attempt - 1))) (1 :: go_int)
             in Inr (baseDelay * multiplier))
        else if strategy = ''LINEAR'' then Inr (baseDelay * attempt)
        else if strategy = ''NONE'' then Inr 0
        else Inr (baseDelay * attempt))"

text \<open>The wrapper of the engine package around the helper.\<close>

definition calculateBackoff :: "go_int \<Rightarrow> go_int \<Rightarrow> string \<Rightarrow> panic + Duration" where
  "calculateBackoff baseDelayMs attempt strategy = CalculateBackoff baseDelayMs attempt strategy"


section \<open>Execution configuration\<close>

type_synonym BackoffStrategy = string

definition BackoffLinear :: BackoffStrategy where "BackoffLinear = ''LINEAR''"
definition BackoffExponential :: BackoffStrategy where "BackoffExponential = ''EXPONENTIAL''"
definition BackoffNone :: BackoffStrategy where "BackoffNone = ''NONE''"

text \<open>
  \<open>FallbackStepID\<close> is a \<open>*string\<close>; the struct comparison of the builder compares the
  pointer, and the default holds \<open>nil\<close>, so a config equals the default exactly when its
  other fields agree and the pointer is \<open>nil\<close> (\<open>None\<close>).
\<close>

record ExecutionConfig =
  MaxRetries :: go_int
  RetryDelayMs :: go_int
  RetryBackoff :: BackoffStrategy
  TimeoutSeconds :: go_int
  MaxConcurrency :: go_int
  ContinueOnError :: bool
  FallbackStepID :: "string option"

definition DefaultExecutionConfig :: ExecutionConfig where
  "DefaultExecutionConfig =
     \<lparr>MaxRetries = 3, RetryDelayMs = 1000, RetryBackoff = BackoffLinear,
      TimeoutSeconds = 30, MaxConcurrency = 1, ContinueOnError = False,
      FallbackStepID = None\<rparr>"


section \<open>Errors\<close>

text \<open>
  The four sentinel errors of the package, an error built by \<open>fmt.Errorf\<close> from a
  message alone, one built with \<open>%w\<close> around a cause, and an error value handed over by
  a library (\<open>encoding/json\<close>, \<open>database/sql\<close>).
\<close>

datatype error =
    ErrRunNotFound
  | ErrStepExecutionNotFound
  | ErrStepOutputNotFound
  | ErrStateNotFound
  | Errorf string
  | Wrapf string error
  | LibraryError string


section \<open>Data model\<close>

type_synonym bytes = string
type_synonym Time = int

type_synonym RunStatus = string

definition RunStatusPending :: RunStatus where "RunStatusPending = ''PENDING''"
definition RunStatusRunning :: RunStatus where "RunStatusRunning = ''RUNNING''"
definition RunStatusCompleted :: RunStatus where "RunStatusCompleted = ''COMPLETED''"
definition RunStatusFailed :: RunStatus where "RunStatusFailed = ''FAILED''"
definition RunStatusCancelled :: RunStatus where "RunStatusCancelled = ''CANCELLED''"

definition RunStatus_IsTerminal :: "RunStatus \<Rightarrow> bool" where
  "RunStatus_IsTerminal s \<longleftrightarrow>
     s = RunStatusCompleted \<or> s = RunStatusFailed \<or> s = RunStatusCancelled"

type_synonym StepStatus = string

definition StepStatusPending :: StepStatus where "StepStatusPending = ''PENDING''"
definition StepStatusRunning :: StepStatus where "StepStatusRunning = ''RUNNING''"
definition StepStatusCompleted :: StepStatus where "StepStatusCompleted = ''COMPLETED''"
definition StepStatusFailed :: StepStatus where "StepStatusFailed = ''FAILED''"
definition StepStatusSkipped :: StepStatus where "StepStatusSkipped = ''SKIPPED''"
definition StepStatusRetrying :: StepStatus where "StepStatusRetrying = ''RETRYING''"

definition StepStatus_IsTerminal :: "StepStatus \<Rightarrow> bool" where
  "StepStatus_IsTerminal s \<longleftrightarrow>
     s = StepStatusCompleted \<or> s = StepStatusFailed \<or> s = StepStatusSkipped"

text \<open>
  Modelled from the spec: the type \<open>WorkflowError\<close> is declared in a file that is not
  among the sources; the spec gives it a kind, a message and optional details, and the
  store copies its \<open>Details\<close> map (\<open>map[string]any\<close>, possibly \<open>nil\<close>).  The values of
  that map are kept as strings.
\<close>

record WorkflowError =
  Code :: string
  Message :: string
  Details :: "(string \<rightharpoonup> string) option"

text \<open>
  A pointer or slice field that may be \<open>nil\<close> is an \<open>option\<close>.  \<open>Progress\<close> is a
  \<open>float64\<close> that the store only copies.
\<close>

record WorkflowRun =
  RunID :: string
  WorkflowID :: string
  WorkflowVersion :: string
  Status :: RunStatus
  Progress :: real
  CreatedAt :: Time
  StartedAt :: "Time option"
  CompletedAt :: "Time option"
  UpdatedAt :: Time
  Input :: "bytes option"
  Output :: "bytes option"
  Error :: "WorkflowError option"
  ResourceID :: string
  Tags :: "(string \<rightharpoonup> string) option"
  Context :: "bytes option"

text \<open>
  The fields of \<open>StepExecution\<close> carry the prefix \<open>se_\<close>, since a record field is a
  constant and the names \<open>RunID\<close>, \<open>Status\<close>, ... are taken by \<open>WorkflowRun\<close>.
  Modelled from the spec: \<open>StepError\<close> is declared outside the sources; it is kept as
  its message.
\<close>

type_synonym StepError = string

record StepExecution =
  se_RunID :: string
  se_StepID :: string
  se_ExecutionIndex :: int
  se_Status :: StepStatus
  se_StartedAt :: "Time option"
  se_CompletedAt :: "Time option"
  se_DurationMs :: int
  se_Input :: "bytes option"
  se_Output :: "bytes option"
  se_Error :: "StepError option"
  se_Attempt :: int
  se_CreatedAt :: Time
  se_UpdatedAt :: Time


section \<open>The in-memory store\<close>

text \<open>
  The four Go maps of the store.  A map whose entries are only looked up and replaced is
  a HOL map.  The inner map of \<open>stepExecutions\<close> is also iterated (by
  \<open>ListStepExecutions\<close>), so it is an association list with one entry per key; its
  order stands for the iteration order Go happens to choose, which is unspecified.
  The store holds pointers to private copies of the records, never the caller's own
  pointer, so a stored record changes only through the store's methods.  The mutex makes
  each method atomic; a method is a function from the store to a result and the new store.
\<close>

record MemoryStore =
  runs :: "string \<rightharpoonup> WorkflowRun"
  stepExecutions :: "string \<rightharpoonup> (string \<times> StepExecution) list"
  stepOutputs :: "string \<rightharpoonup> (string \<rightharpoonup> bytes)"
  state :: "string \<rightharpoonup> (string \<rightharpoonup> bytes)"

definition NewMemoryStore :: MemoryStore where
  "NewMemoryStore =
     \<lparr>runs = Map.empty, stepExecutions = Map.empty, stepOutputs = Map.empty,
      state = Map.empty\<rparr>"

text \<open>\<open>make([]byte, len(b))\<close> followed by \<open>copy\<close>: a fresh slice with the same bytes.\<close>

definition copy_bytes :: "bytes \<Rightarrow> bytes" where
  "copy_bytes b = take (length b) b"

text \<open>\<open>make(map...)\<close> followed by a loop that stores every entry of \<open>m\<close>.\<close>

definition copy_map :: "('k \<rightharpoonup> 'v) \<Rightarrow> ('k \<rightharpoonup> 'v)" where
  "copy_map m = Map.empty ++ m"

definition copy_error :: "WorkflowError \<Rightarrow> WorkflowError" where
  "copy_error e = e\<lparr>Details := map_option copy_map (Details e)\<rparr>"

text \<open>
  \<open>deepCopyRun\<close> is only called on non-\<open>nil\<close> pointers by the methods below, so its
  \<open>nil\<close> branch has no counterpart here.
\<close>

definition deepCopyRun :: "WorkflowRun \<Rightarrow> WorkflowRun" where
  "deepCopyRun run =
     run\<lparr>Tags := map_option copy_map (Tags run),
         Input := map_option copy_bytes (Input run),
         Output := map_option copy_bytes (Output run),
         Context := map_option copy_bytes (Context run),
         Error := map_option copy_error (Error run),
         StartedAt := map_option (\<lambda>t. t) (StartedAt run),
         CompletedAt := map_option (\<lambda>t. t) (CompletedAt run)\<rparr>"

text \<open>\<open>execCopy := *exec\<close>: a shallow copy of the struct.\<close>

definition deepCopyStepExecution :: "StepExecution \<Rightarrow> StepExecution" where
  "deepCopyStepExecution exec = exec"

subsection \<open>Workflow run operations\<close>

definition CreateRun :: "MemoryStore \<Rightarrow> WorkflowRun \<Rightarrow> error option \<times> MemoryStore" where
  "CreateRun s run =
     (if runs s (RunID run) \<noteq> None
      then (Some (Errorf (''workflow run '' @ RunID run @ '' already exists'')), s)
      else (None,
            s\<lparr>runs := (runs s)(RunID run \<mapsto> deepCopyRun run),
              stepExecutions := (stepExecutions s)(RunID run \<mapsto> []),
              stepOutputs := (stepOutputs s)(RunID run \<mapsto> Map.empty),
              state := (state s)(RunID run \<mapsto> Map.empty)\<rparr>))"

definition GetRun :: "MemoryStore \<Rightarrow> string \<Rightarrow> error + WorkflowRun" where
  "GetRun s runID =
     (case runs s runID of
        None \<Rightarrow> Inl ErrRunNotFound
      | Some run \<Rightarrow> Inr (deepCopyRun run))"

definition UpdateRun :: "MemoryStore \<Rightarrow> WorkflowRun \<Rightarrow> error option \<times> MemoryStore" where
  "UpdateRun s run =
     (if runs s (RunID run) = None then (Some ErrRunNotFound, s)
      else (None, s\<lparr>runs := (runs s)(RunID run \<mapsto> deepCopyRun run)\<rparr>))"

definition UpdateRunStatus ::
  "MemoryStore \<Rightarrow> string \<Rightarrow> RunStatus \<Rightarrow> WorkflowError option \<Rightarrow> error option \<times> MemoryStore" where
  "UpdateRunStatus s runID status err =
     (case runs s runID of
        None \<Rightarrow> (Some ErrRunNotFound, s)
      | Some run \<Rightarrow>
          (None,
           s\<lparr>runs := (runs s)(runID \<mapsto>
                run\<lparr>Status := status,
                    Error := (case err of
                                Some e \<Rightarrow> Some (copy_error e)
                              | None \<Rightarrow> None)\<rparr>)\<rparr>))"

subsection \<open>Step execution operations\<close>

definition CreateStepExecution ::
  "MemoryStore \<Rightarrow> StepExecution \<Rightarrow> error option \<times> MemoryStore" where
  "CreateStepExecution s exec =
     (let runExecs = (case stepExecutions s (se_RunID exec) of
                        None \<Rightarrow> []
                      | Some m \<Rightarrow> m)
      in (None,
          s\<lparr>stepExecutions := (stepExecutions s)(se_RunID exec \<mapsto>
               AList.update (se_StepID exec) (deepCopyStepExecution exec) runExecs)\<rparr>))"

definition GetStepExecution :: "MemoryStore \<Rightarrow> string \<Rightarrow> string \<Rightarrow> error + StepExecution" where
  "GetStepExecution s runID stepID =
     (case stepExecutions s runID of
        None \<Rightarrow> Inl ErrStepExecutionNotFound
      | Some runExecs \<Rightarrow>
          (case map_of runExecs stepID of
             None \<Rightarrow> Inl ErrStepExecutionNotFound
           | Some exec \<Rightarrow> Inr (deepCopyStepExecution exec)))"

definition UpdateStepExecution ::
  "MemoryStore \<Rightarrow> StepExecution \<Rightarrow> error option \<times> MemoryStore" where
  "UpdateStepExecution s exec =
     (case stepExecutions s (se_RunID exec) of
        None \<Rightarrow> (Some ErrStepExecutionNotFound, s)
      | Some runExecs \<Rightarrow>
          (None,
           s\<lparr>stepExecutions := (stepExecutions s)(se_RunID exec \<mapsto>
                AList.update (se_StepID exec) (deepCopyStepExecution exec) runExecs)\<rparr>))"


subsection \<open>Step output operations\<close>

definition SaveStepOutput ::
  "MemoryStore \<Rightarrow> string \<Rightarrow> string \<Rightarrow> bytes \<Rightarrow> error option \<times> MemoryStore" where
  "SaveStepOutput s runID stepID output =
     (let runOutputs = (case stepOutputs s runID of
                          None \<Rightarrow> Map.empty
                        | Some m \<Rightarrow> m)
      in (None,
          s\<lparr>stepOutputs := (stepOutputs s)(runID \<mapsto>
               runOutputs(stepID \<mapsto> copy_bytes output))\<rparr>))"

definition LoadStepOutput :: "MemoryStore \<Rightarrow> string \<Rightarrow> string \<Rightarrow> error + bytes" where
  "LoadStepOutput s runID stepID =
     (case stepOutputs s runID of
        None \<Rightarrow> Inl ErrStepOutputNotFound
      | Some runOutputs \<Rightarrow>
          (case runOutputs stepID of
             None \<Rightarrow> Inl ErrStepOutputNotFound
           | Some output \<Rightarrow> Inr (copy_bytes output)))"

subsection \<open>State operations\<close>

definition SaveState ::
  "MemoryStore \<Rightarrow> string \<Rightarrow> string \<Rightarrow> bytes \<Rightarrow> error option \<times> MemoryStore" where
  "SaveState s runID key val =
     (let runState = (case state s runID of
                        None \<Rightarrow> Map.empty
                      | Some m \<Rightarrow> m)
      in (None,
          s\<lparr>state := (state s)(runID \<mapsto> runState(key \<mapsto> copy_bytes val))\<rparr>))"

definition LoadState :: "MemoryStore \<Rightarrow> string \<Rightarrow> string \<Rightarrow> error + bytes" where
  "LoadState s runID key =
     (case state s runID of
        None \<Rightarrow> Inl ErrStateNotFound
      | Some runState \<Rightarrow>
          (case runState key of
             None \<Rightarrow> Inl ErrStateNotFound
           | Some val \<Rightarrow> Inr (copy_bytes val)))"

definition DeleteState :: "MemoryStore \<Rightarrow> string \<Rightarrow> string \<Rightarrow> error option \<times> MemoryStore" where
  "DeleteState s runID key =
     (case state s runID of
        None \<Rightarrow> (None, s)
      | Some runState \<Rightarrow>
          (None, s\<lparr>state := (state s)(runID \<mapsto> runState(key := None))\<rparr>))"

subsection \<open>Sequences of store writes\<close>

text \<open>
  The writing methods of the store as a datatype of calls, and the store after a
  sequence of calls (the error results are dropped: a failed call returns the store as
  it was).  The reading methods above are functions of the store alone.
\<close>

datatype store_call =
    CallCreateRun WorkflowRun
  | CallUpdateRun WorkflowRun
  | CallUpdateRunStatus string RunStatus "WorkflowError option"
  | CallCreateStepExecution StepExecution
  | CallUpdateStepExecution StepExecution
  | CallSaveStepOutput string string bytes
  | CallSaveState string string bytes
  | CallDeleteState string string

fun do_call :: "MemoryStore \<Rightarrow> store_call \<Rightarrow> error option \<times> MemoryStore" where
  "do_call s (CallCreateRun run) = CreateRun s run"
| "do_call s (CallUpdateRun run) = UpdateRun s run"
| "do_call s (CallUpdateRunStatus runID status err) = UpdateRunStatus s runID status err"
| "do_call s (CallCreateStepExecution exec) = CreateStepExecution s exec"
| "do_call s (CallUpdateStepExecution exec) = UpdateStepExecution s exec"
| "do_call s (CallSaveStepOutput runID stepID output) = SaveStepOutput s runID stepID output"
| "do_call s (CallSaveState runID key val) = SaveState s runID key val"
| "do_call s (CallDeleteState runID key) = DeleteState s runID key"

fun do_calls :: "MemoryStore \<Rightarrow> store_call list \<Rightarrow> MemoryStore" where
  "do_calls s [] = s"
| "do_calls s (c # cs) = do_calls (snd (do_call s c)) cs"

text \<open>The calls that write the status of run \<open>runID\<close>.\<close>

fun writes_status :: "string \<Rightarrow> store_call \<Rightarrow> bool" where
  "writes_status runID (CallUpdateRun run) = (RunID run = runID)"
| "writes_status runID (CallUpdateRunStatus runID' status err) = (runID' = runID)"
| "writes_status runID _ = False"

text \<open>The status of a run as \<open>GetRun\<close> reports it.\<close>

definition run_status :: "MemoryStore \<Rightarrow> string \<Rightarrow> RunStatus option" where
  "run_status s runID =
     (case GetRun s runID of Inl err \<Rightarrow> None | Inr run \<Rightarrow> Some (Status run))"


section \<open>The LibSQL store: step outputs and state\<close>

text \<open>
  The database behind the store is an external collaborator.  Of it the model keeps the
  two tables whose rows are byte strings, each a map from its primary key, and the
  error, if any, with which the driver currently answers every statement (a closed
  connection, an I/O failure).  \<open>QueryRowContext(...).Scan\<close> yields \<open>sql.ErrNoRows\<close>
  when no row matches, the driver's error when the statement fails, and the column
  otherwise.  \<open>INSERT ... ON CONFLICT(key) DO UPDATE\<close> stores the row under its key;
  \<open>DELETE\<close> removes it.  The schema declares no foreign keys.
\<close>

record SqlDB =
  db_failure :: "error option"
  step_outputs :: "(string \<times> string) \<rightharpoonup> bytes"
  workflow_state :: "(string \<times> string) \<rightharpoonup> bytes"

datatype scan_result = ErrNoRows | ScanFailed error | Scanned bytes

definition QueryRow :: "SqlDB \<Rightarrow> ((string \<times> string) \<rightharpoonup> bytes) \<Rightarrow> string \<times> string \<Rightarrow> scan_result" where
  "QueryRow db tbl k =
     (case db_failure db of
        Some err \<Rightarrow> ScanFailed err
      | None \<Rightarrow> (case tbl k of None \<Rightarrow> ErrNoRows | Some col \<Rightarrow> Scanned col))"

definition NewSqlDB :: SqlDB where
  "NewSqlDB = \<lparr>db_failure = None, step_outputs = Map.empty, workflow_state = Map.empty\<rparr>"

text \<open>\<open>Close\<close> closes the connection pool; every later statement fails.\<close>

definition LibSQLStore_Close :: "SqlDB \<Rightarrow> error option \<times> SqlDB" where
  "LibSQLStore_Close db =
     (None, db\<lparr>db_failure := Some (LibraryError ''sql: database is closed'')\<rparr>)"

definition LibSQLStore_SaveStepOutput ::
  "SqlDB \<Rightarrow> string \<Rightarrow> string \<Rightarrow> bytes \<Rightarrow> error option \<times> SqlDB" where
  "LibSQLStore_SaveStepOutput db runID stepID output =
     (case db_failure db of
        Some err \<Rightarrow> (Some (Wrapf ''failed to save step output'' err), db)
      | None \<Rightarrow>
          (None, db\<lparr>step_outputs := (step_outputs db)((runID, stepID) \<mapsto> output)\<rparr>))"

definition LibSQLStore_LoadStepOutput :: "SqlDB \<Rightarrow> string \<Rightarrow> string \<Rightarrow> error + bytes" where
  "LibSQLStore_LoadStepOutput db runID stepID =
     (case QueryRow db (step_outputs db) (runID, stepID) of
        ErrNoRows \<Rightarrow> Inl ErrStepOutputNotFound
      | ScanFailed err \<Rightarrow> Inl (Wrapf ''failed to load step output'' err)
      | Scanned data \<Rightarrow> Inr data)"

definition LibSQLStore_SaveState ::
  "SqlDB \<Rightarrow> string \<Rightarrow> string \<Rightarrow> bytes \<Rightarrow> error option \<times> SqlDB" where
  "LibSQLStore_SaveState db runID key val =
     (case db_failure db of
        Some err \<Rightarrow> (Some (Wrapf ''failed to save state'' err), db)
      | None \<Rightarrow>
          (None, db\<lparr>workflow_state := (workflow_state db)((runID, key) \<mapsto> val)\<rparr>))"

definition LibSQLStore_LoadState :: "SqlDB \<Rightarrow> string \<Rightarrow> string \<Rightarrow> error + bytes" where
  "LibSQLStore_LoadState db runID key =
     (case QueryRow db (workflow_state db) (runID, key) of
        ErrNoRows \<Rightarrow> Inl ErrStateNotFound
      | ScanFailed err \<Rightarrow> Inl (Wrapf ''failed to load state'' err)
      | Scanned val \<Rightarrow> Inr val)"

definition LibSQLStore_DeleteState ::
  "SqlDB \<Rightarrow> string \<Rightarrow> string \<Rightarrow> error option \<times> SqlDB" where
  "LibSQLStore_DeleteState db runID key =
     (case db_failure db of
        Some err \<Rightarrow> (Some (Wrapf ''failed to delete state'' err), db)
      | None \<Rightarrow>
          (None, db\<lparr>workflow_state := (workflow_state db)((runID, key) := None)\<rparr>))"

text \<open>
  The repository holds a second \<open>LibSQLStore\<close> (the one whose constructor runs the schema
  through \<open>Init\<close>).  Its statements are the same; its lookups answer \<open>sql.ErrNoRows\<close>
  with an error built by \<open>fmt.Errorf\<close> from a message.
\<close>

definition LibSQLStore2_LoadStepOutput :: "SqlDB \<Rightarrow> string \<Rightarrow> string \<Rightarrow> error + bytes" where
  "LibSQLStore2_LoadStepOutput db runID stepID =
     (case QueryRow db (step_outputs db) (runID, stepID) of
        ErrNoRows \<Rightarrow> Inl (Errorf (''step output not found: '' @ runID @ ''/'' @ stepID))
      | ScanFailed err \<Rightarrow> Inl (Wrapf ''failed to load step output'' err)
      | Scanned data \<Rightarrow> Inr data)"

definition LibSQLStore2_LoadState :: "SqlDB \<Rightarrow> string \<Rightarrow> string \<Rightarrow> error + bytes" where
  "LibSQLStore2_LoadState db runID key =
     (case QueryRow db (workflow_state db) (runID, key) of
        ErrNoRows \<Rightarrow> Inl (Errorf (''state not found: '' @ runID @ ''/'' @ key))
      | ScanFailed err \<Rightarrow> Inl (Wrapf ''failed to load state'' err)
      | Scanned val \<Rightarrow> Inr val)"


section \<open>The store interface as the accessors use it\<close>

text \<open>
  Modelled from the spec: the interface \<open>WorkflowStore\<close> is declared in a file that is
  not among the sources.  The record holds the methods that the accessor methods below
  call, and the step-output upsert, with the signatures of the implementations.  A store
  behind the interface is any value of a type \<open>'st\<close>; every method may change it.
\<close>

record 'st WorkflowStore =
  store_SaveStepOutput :: "'st \<Rightarrow> string \<Rightarrow> string \<Rightarrow> bytes \<Rightarrow> error option \<times> 'st"
  store_LoadStepOutput :: "'st \<Rightarrow> string \<Rightarrow> string \<Rightarrow> (error + bytes) \<times> 'st"
  store_SaveState :: "'st \<Rightarrow> string \<Rightarrow> string \<Rightarrow> bytes \<Rightarrow> error option \<times> 'st"
  store_LoadState :: "'st \<Rightarrow> string \<Rightarrow> string \<Rightarrow> (error + bytes) \<times> 'st"
  store_DeleteState :: "'st \<Rightarrow> string \<Rightarrow> string \<Rightarrow> error option \<times> 'st"

definition MemoryStore_methods :: "MemoryStore WorkflowStore" where
  "MemoryStore_methods =
     \<lparr>store_SaveStepOutput = SaveStepOutput,
      store_LoadStepOutput = (\<lambda>s runID stepID. (LoadStepOutput s runID stepID, s)),
      store_SaveState = SaveState,
      store_LoadState = (\<lambda>s runID key. (LoadState s runID key, s)),
      store_DeleteState = DeleteState\<rparr>"

definition LibSQLStore_methods :: "SqlDB WorkflowStore" where
  "LibSQLStore_methods =
     \<lparr>store_SaveStepOutput = LibSQLStore_SaveStepOutput,
      store_LoadStepOutput = (\<lambda>db runID stepID. (LibSQLStore_LoadStepOutput db runID stepID, db)),
      store_SaveState = LibSQLStore_SaveState,
      store_LoadState = (\<lambda>db runID key. (LibSQLStore_LoadState db runID key, db)),
      store_DeleteState = LibSQLStore_DeleteState\<rparr>"


section \<open>Accessors\<close>

text \<open>
  An accessor holds its run id, a pointer to the store and its caches.  The pointer is
  the method table \<open>S\<close> together with the store value \<open>st\<close>, which is passed in and
  returned, since the store is shared with everything else that holds the pointer.
  \<open>json.Marshal\<close> and \<open>json.Unmarshal\<close> at the type of the value are the parameters
  \<open>marshal\<close> and \<open>unmarshal\<close>; the out-parameter \<open>target\<close> is the returned value.
\<close>

record stepAccessor =
  sta_runID :: string
  outputCache :: "string \<rightharpoonup> bytes"
  inputCache :: "string \<rightharpoonup> bytes"

definition newStepAccessor :: "string \<Rightarrow> stepAccessor" where
  "newStepAccessor runID =
     \<lparr>sta_runID = runID, outputCache = Map.empty, inputCache = Map.empty\<rparr>"

definition stepAccessor_GetOutput ::
  "'st WorkflowStore \<Rightarrow> (bytes \<Rightarrow> error + 'v) \<Rightarrow> stepAccessor \<Rightarrow> 'st \<Rightarrow> string
     \<Rightarrow> (error + 'v) \<times> stepAccessor \<times> 'st" where
  "stepAccessor_GetOutput S unmarshal a st stepID =
     (case outputCache a stepID of
        Some data \<Rightarrow> (unmarshal data, a, st)
      | None \<Rightarrow>
          (case store_LoadStepOutput S st (sta_runID a) stepID of
             (Inl err, st') \<Rightarrow>
               (Inl (Wrapf (''failed to load output for step '' @ stepID) err), a, st')
           | (Inr data, st') \<Rightarrow>
               (let a' = a\<lparr>outputCache := (outputCache a)(stepID \<mapsto> data)\<rparr> in
                case unmarshal data of
                  Inl err \<Rightarrow>
                    (Inl (Wrapf (''failed to unmarshal output for step '' @ stepID) err), a', st')
                | Inr v \<Rightarrow> (Inr v, a', st'))))"

definition stepAccessor_HasOutput ::
  "'st WorkflowStore \<Rightarrow> stepAccessor \<Rightarrow> 'st \<Rightarrow> string \<Rightarrow> bool \<times> stepAccessor \<times> 'st" where
  "stepAccessor_HasOutput S a st stepID =
     (case outputCache a stepID of
        Some data \<Rightarrow> (True, a, st)
      | None \<Rightarrow>
          (case store_LoadStepOutput S st (sta_runID a) stepID of
             (Inl err, st') \<Rightarrow> (False, a, st')
           | (Inr data, st') \<Rightarrow> (True, a, st')))"

record stateAccessor =
  sa_runID :: string
  cache :: "string \<rightharpoonup> bytes"

definition NewStateAccessor :: "string \<Rightarrow> stateAccessor" where
  "NewStateAccessor runID = \<lparr>sa_runID = runID, cache = Map.empty\<rparr>"

definition stateAccessor_Set ::
  "'st WorkflowStore \<Rightarrow> ('v \<Rightarrow> error + bytes) \<Rightarrow> stateAccessor \<Rightarrow> 'st \<Rightarrow> string \<Rightarrow> 'v
     \<Rightarrow> error option \<times> stateAccessor \<times> 'st" where
  "stateAccessor_Set S marshal a st key v =
     (case marshal v of
        Inl err \<Rightarrow>
          (Some (Wrapf (''failed to marshal state value for key '' @ key) err), a, st)
      | Inr data \<Rightarrow>
          (let a' = a\<lparr>cache := (cache a)(key \<mapsto> data)\<rparr> in
           case store_SaveState S st (sa_runID a) key data of
             (Some err, st') \<Rightarrow>
               (Some (Wrapf (''failed to save state for key '' @ key) err), a', st')
           | (None, st') \<Rightarrow> (None, a', st')))"

definition stateAccessor_Get ::
  "'st WorkflowStore \<Rightarrow> (bytes \<Rightarrow> error + 'v) \<Rightarrow> stateAccessor \<Rightarrow> 'st \<Rightarrow> string
     \<Rightarrow> (error + 'v) \<times> stateAccessor \<times> 'st" where
  "stateAccessor_Get S unmarshal a st key =
     (case cache a key of
        Some data \<Rightarrow> (unmarshal data, a, st)
      | None \<Rightarrow>
          (case store_LoadState S st (sa_runID a) key of
             (Inl err, st') \<Rightarrow>
               (Inl (Wrapf (''failed to load state for key '' @ key) err), a, st')
           | (Inr data, st') \<Rightarrow>
               (let a' = a\<lparr>cache := (cache a)(key \<mapsto> data)\<rparr> in
                case unmarshal data of
                  Inl err \<Rightarrow>
                    (Inl (Wrapf (''failed to unmarshal state for key '' @ key) err), a', st')
                | Inr v \<Rightarrow> (Inr v, a', st'))))"

definition stateAccessor_Delete ::
  "'st WorkflowStore \<Rightarrow> stateAccessor \<Rightarrow> 'st \<Rightarrow> string \<Rightarrow> error option \<times> stateAccessor \<times> 'st" where
  "stateAccessor_Delete S a st key =
     (let a' = a\<lparr>cache := (cache a)(key := None)\<rparr> in
      case store_DeleteState S st (sa_runID a) key of
        (Some err, st') \<Rightarrow>
          (Some (Wrapf (''failed to delete state for key '' @ key) err), a', st')
      | (None, st') \<Rightarrow> (None, a', st'))"

definition stateAccessor_Has ::
  "'st WorkflowStore \<Rightarrow> stateAccessor \<Rightarrow> 'st \<Rightarrow> string \<Rightarrow> bool \<times> stateAccessor \<times> 'st" where
  "stateAccessor_Has S a st key =
     (case cache a key of
        Some data \<Rightarrow> (True, a, st)
      | None \<Rightarrow>
          (case store_LoadState S st (sa_runID a) key of
             (Inl err, st') \<Rightarrow> (False, a, st')
           | (Inr data, st') \<Rightarrow> (True, a, st')))"

text \<open>A value round-trips through JSON when decoding its encoding gives it back.\<close>

definition json_roundtrip :: "('v \<Rightarrow> error + bytes) \<Rightarrow> (bytes \<Rightarrow> error + 'v) \<Rightarrow> 'v \<Rightarrow> bool" where
  "json_roundtrip marshal unmarshal v \<longleftrightarrow>
     (case marshal v of Inl err \<Rightarrow> False | Inr data \<Rightarrow> unmarshal data = Inr v)"

text \<open>JSON of a boolean, for concrete runs of the accessors.\<close>

definition marshal_bool :: "bool \<Rightarrow> error + bytes" where
  "marshal_bool b = Inr (if b then ''true'' else ''false'')"

definition unmarshal_bool :: "bytes \<Rightarrow> error + bool" where
  "unmarshal_bool data =
     (if data = ''true'' then Inr True
      else if data = ''false'' then Inr False
      else Inl (LibraryError ''json: cannot unmarshal into Go value of type bool''))"

text \<open>
  What may happen around a step accessor between two of its reads: its own reads of any
  step, and any change of the store made through another holder of the store pointer
  (the executor's step-output upsert among them).
\<close>

datatype 'st accessor_event =
    EvGetOutput string
  | EvHasOutput string
  | EvStoreChange "'st \<Rightarrow> 'st"

fun do_event ::
  "'st WorkflowStore \<Rightarrow> (bytes \<Rightarrow> error + 'v) \<Rightarrow> stepAccessor \<times> 'st \<Rightarrow> 'st accessor_event
     \<Rightarrow> stepAccessor \<times> 'st" where
  "do_event S unmarshal (a, st) (EvGetOutput stepID) =
     snd (stepAccessor_GetOutput S unmarshal a st stepID)"
| "do_event S unmarshal (a, st) (EvHasOutput stepID) =
     snd (stepAccessor_HasOutput S a st stepID)"
| "do_event S unmarshal (a, st) (EvStoreChange f) = (a, f st)"

fun do_events ::
  "'st WorkflowStore \<Rightarrow> (bytes \<Rightarrow> error + 'v) \<Rightarrow> stepAccessor \<times> 'st \<Rightarrow> 'st accessor_event list
     \<Rightarrow> stepAccessor \<times> 'st" where
  "do_events S unmarshal c [] = c"
| "do_events S unmarshal c (e # es) = do_events S unmarshal (do_event S unmarshal c e) es"


section \<open>The workflow builder\<close>

text \<open>
  Modelled from the spec: the types \<open>Step\<close>, \<open>Workflow\<close> and \<open>ExecutionGraph\<close> and their
  methods \<open>GetConfig\<close>, \<open>SetConfig\<close>, \<open>GetStep\<close> and \<open>Validate\<close> are declared in
  files that are not among the sources.  A step owns an id, a name and a config of its
  own (a struct value, which \<open>GetConfig\<close> returns and \<open>SetConfig\<close> replaces); a
  workflow owns its default config, a map from step id to its steps and a graph whose
  nodes are keyed by step id; \<open>GetStep\<close> looks the step map up and fails on an unknown
  id.  The node map is an association list, in the order the loop of \<open>Build\<close> happens to
  visit it.  The outcome of the graph's \<open>Validate\<close> is a parameter of \<open>Build\<close>.
\<close>

record Step =
  step_ID :: string
  step_Name :: string
  step_Config :: ExecutionConfig

definition Step_GetConfig :: "Step \<Rightarrow> ExecutionConfig" where
  "Step_GetConfig step = step_Config step"

definition Step_SetConfig :: "Step \<Rightarrow> ExecutionConfig \<Rightarrow> Step" where
  "Step_SetConfig step config = step\<lparr>step_Config := config\<rparr>"

datatype NodeType = NodeTypeSequential | NodeTypeParallel

record ExecutionGraph =
  Nodes :: "(string \<times> NodeType) list"

record Workflow =
  wf_ID :: string
  wf_Name :: string
  wf_config :: ExecutionConfig
  wf_steps :: "string \<rightharpoonup> Step"
  wf_graph :: ExecutionGraph

definition Workflow_GetConfig :: "Workflow \<Rightarrow> ExecutionConfig" where
  "Workflow_GetConfig w = wf_config w"

definition Workflow_SetConfig :: "Workflow \<Rightarrow> ExecutionConfig \<Rightarrow> Workflow" where
  "Workflow_SetConfig w config = w\<lparr>wf_config := config\<rparr>"

definition Workflow_GetStep :: "Workflow \<Rightarrow> string \<Rightarrow> error + Step" where
  "Workflow_GetStep w stepID =
     (case wf_steps w stepID of
        None \<Rightarrow> Inl (Errorf (''step '' @ stepID @ '' not found''))
      | Some step \<Rightarrow> Inr step)"

record WorkflowBuilder =
  workflow :: Workflow
  lastStepIDs :: "string list"
  currentChain :: "string list"

text \<open>
  The loop of \<open>Build\<close> over the node ids.  \<open>step.SetConfig\<close> changes the step object that
  the step map of the workflow points to.  The loop returns at the first id without a
  step; the steps it has visited by then keep their new config.
\<close>

fun Build_steps :: "Workflow \<Rightarrow> string list \<Rightarrow> error option \<times> Workflow" where
  "Build_steps w [] = (None, w)"
| "Build_steps w (stepID # rest) =
     (case Workflow_GetStep w stepID of
        Inl err \<Rightarrow>
          (Some (Errorf (''step '' @ stepID @ '' referenced in graph but not registered'')), w)
      | Inr step \<Rightarrow>
          Build_steps
            (if Step_GetConfig step = DefaultExecutionConfig
             then w\<lparr>wf_steps := (wf_steps w)(stepID \<mapsto>
                      Step_SetConfig step (Workflow_GetConfig w))\<rparr>
             else w)
            rest)"

definition Build ::
  "(ExecutionGraph \<Rightarrow> error option) \<Rightarrow> WorkflowBuilder \<Rightarrow> (error + Workflow) \<times> WorkflowBuilder" where
  "Build Validate b =
     (case Validate (wf_graph (workflow b)) of
        Some err \<Rightarrow> (Inl (Wrapf ''invalid workflow graph'' err), b)
      | None \<Rightarrow>
          (case Build_steps (workflow b) (map fst (Nodes (wf_graph (workflow b)))) of
             (Some err, w) \<Rightarrow> (Inl err, b\<lparr>workflow := w\<rparr>)
           | (None, w) \<Rightarrow> (Inr w, b\<lparr>workflow := w\<rparr>)))"

definition WithConfig :: "WorkflowBuilder \<Rightarrow> ExecutionConfig \<Rightarrow> WorkflowBuilder" where
  "WithConfig b config = b\<lparr>workflow := Workflow_SetConfig (workflow b) config\<rparr>"

text \<open>
  A step after \<open>Build\<close> has visited it, \<open>d\<close> being the workflow's default config: used
  to describe the loop \<open>Build_steps\<close>.
\<close>

definition inherit :: "ExecutionConfig \<Rightarrow> Step \<Rightarrow> Step" where
  "inherit d step =
     step\<lparr>step_Config := (if step_Config step = DefaultExecutionConfig then d
                           else step_Config step)\<rparr>"


section \<open>The LibSQL store: runs and step executions\<close>

text \<open>
  The tables \<open>workflow_runs\<close> and \<open>step_executions\<close> of the same database.  Both keep a
  record in the column \<open>data\<close>, as the JSON text that \<open>json.Marshal\<close> produced.  The
  content of that column is a value of a type \<open>'r\<close> (runs) or \<open>'e\<close> (step executions),
  and \<open>json.Marshal\<close> and \<open>json.Unmarshal\<close> at the two record types are the parameters
  \<open>marshal\<close> and \<open>unmarshal\<close> of the methods, as they are for the accessors.  Of the
  other columns the model keeps the ones a later statement reads: the primary keys and
  \<open>execution_index\<close>.  \<open>workflow_runs\<close> is a map from its primary key \<open>run_id\<close>;
  \<open>step_executions\<close> is the list of its rows in the order of insertion, with at most one
  row per primary key \<open>(run_id, step_id)\<close>.  A plain \<open>INSERT\<close> of an existing primary key
  fails; an \<open>UPDATE\<close> that matches no row succeeds and changes nothing.
\<close>

record 'e exec_row =
  row_run_id :: string
  row_step_id :: string
  row_execution_index :: int
  row_data :: 'e

record ('r, 'e) SqlDB_docs = SqlDB +
  workflow_runs :: "string \<rightharpoonup> 'r"
  step_executions :: "'e exec_row list"

definition NewSqlDB_docs :: "('r, 'e) SqlDB_docs" where
  "NewSqlDB_docs =
     \<lparr>db_failure = None, step_outputs = Map.empty, workflow_state = Map.empty,
      workflow_runs = Map.empty, step_executions = []\<rparr>"

definition LibSQLStore_CreateRun ::
  "(WorkflowRun \<Rightarrow> error + 'r) \<Rightarrow> ('r, 'e) SqlDB_docs \<Rightarrow> WorkflowRun
     \<Rightarrow> error option \<times> ('r, 'e) SqlDB_docs" where
  "LibSQLStore_CreateRun marshal db run =
     (case marshal run of
        Inl err \<Rightarrow> (Some (Wrapf ''failed to marshal run'' err), db)
      | Inr data \<Rightarrow>
          (case db_failure db of
             Some err \<Rightarrow> (Some (Wrapf ''failed to create run'' err), db)
           | None \<Rightarrow>
               (if workflow_runs db (RunID run) \<noteq> None
                then (Some (Wrapf ''failed to create run''
                              (LibraryError ''UNIQUE constraint failed: workflow_runs.run_id'')),
                      db)
                else (None, db\<lparr>workflow_runs := (workflow_runs db)(RunID run \<mapsto> data)\<rparr>))))"

definition LibSQLStore_GetRun ::
  "('r \<Rightarrow> error + WorkflowRun) \<Rightarrow> ('r, 'e) SqlDB_docs \<Rightarrow> string \<Rightarrow> error + WorkflowRun" where
  "LibSQLStore_GetRun unmarshal db runID =
     (case db_failure db of
        Some err \<Rightarrow> Inl (Wrapf ''failed to get run'' err)
      | None \<Rightarrow>
          (case workflow_runs db runID of
             None \<Rightarrow> Inl ErrRunNotFound
           | Some data \<Rightarrow>
               (case unmarshal data of
                  Inl err \<Rightarrow> Inl (Wrapf ''failed to unmarshal run'' err)
                | Inr run \<Rightarrow> Inr run)))"

text \<open>
  In the second LibSQL store \<open>CreateRun\<close> and \<open>SaveStepOutput\<close> are the same text as in
  the first; its \<open>GetRun\<close> answers \<open>sql.ErrNoRows\<close> with an error built from a message.
\<close>

definition LibSQLStore2_GetRun ::
  "('r \<Rightarrow> error + WorkflowRun) \<Rightarrow> ('r, 'e) SqlDB_docs \<Rightarrow> string \<Rightarrow> error + WorkflowRun" where
  "LibSQLStore2_GetRun unmarshal db runID =
     (case db_failure db of
        Some err \<Rightarrow> Inl (Wrapf ''failed to get run'' err)
      | None \<Rightarrow>
          (case workflow_runs db runID of
             None \<Rightarrow> Inl (Errorf (''run not found: '' @ runID))
           | Some data \<Rightarrow>
               (case unmarshal data of
                  Inl err \<Rightarrow> Inl (Wrapf ''failed to unmarshal run'' err)
                | Inr run \<Rightarrow> Inr run)))"

text \<open>
  \<open>CreateStepExecution\<close> is the same text in both LibSQL stores of the repository: the
  row gets the \<open>ExecutionIndex\<close> of the record as its \<open>execution_index\<close> and the encoded
  record as its \<open>data\<close>.
\<close>

definition has_row :: "'e exec_row list \<Rightarrow> string \<Rightarrow> string \<Rightarrow> bool" where
  "has_row tbl runID stepID \<longleftrightarrow>
     (runID, stepID) \<in> set (map (\<lambda>r. (row_run_id r, row_step_id r)) tbl)"

definition LibSQLStore_CreateStepExecution ::
  "(StepExecution \<Rightarrow> error + 'e) \<Rightarrow> ('r, 'e) SqlDB_docs \<Rightarrow> StepExecution
     \<Rightarrow> error option \<times> ('r, 'e) SqlDB_docs" where
  "LibSQLStore_CreateStepExecution marshal db exec =
     (case marshal exec of
        Inl err \<Rightarrow> (Some (Wrapf ''failed to marshal step execution'' err), db)
      | Inr data \<Rightarrow>
          (case db_failure db of
             Some err \<Rightarrow> (Some (Wrapf ''failed to create step execution'' err), db)
           | None \<Rightarrow>
               (if has_row (step_executions db) (se_RunID exec) (se_StepID exec)
                then (Some (Wrapf ''failed to create step execution''
                              (LibraryError ''UNIQUE constraint failed: step_executions.run_id, step_executions.step_id'')),
                      db)
                else (None,
                      db\<lparr>step_executions := step_executions db @
                           [\<lparr>row_run_id = se_RunID exec, row_step_id = se_StepID exec,
                             row_execution_index = se_ExecutionIndex exec,
                             row_data = data\<rparr>]\<rparr>))))"




text \<open>
  \<open>UpdateStepExecution\<close> of the second LibSQL store replaces \<open>data\<close> by the encoding of
  the record it is given, and does not write \<open>execution_index\<close>.
\<close>

definition LibSQLStore2_UpdateStepExecution ::
  "(StepExecution \<Rightarrow> error + 'e) \<Rightarrow> ('r, 'e) SqlDB_docs \<Rightarrow> StepExecution
     \<Rightarrow> error option \<times> ('r, 'e) SqlDB_docs" where
  "LibSQLStore2_UpdateStepExecution marshal db exec =
     (case marshal exec of
        Inl err \<Rightarrow> (Some (Wrapf ''failed to marshal step execution'' err), db)
      | Inr data \<Rightarrow>
          (case db_failure db of
             Some err \<Rightarrow> (Some (Wrapf ''failed to update step execution'' err), db)
           | None \<Rightarrow>
               (None,
                db\<lparr>step_executions :=
                     map (\<lambda>r. if row_run_id r = se_RunID exec \<and> row_step_id r = se_StepID exec
                              then r\<lparr>row_data := data\<rparr>
                              else r)
                         (step_executions db)\<rparr>)))"

text \<open>
  The rows that \<open>SELECT data FROM step_executions WHERE run_id = ? ORDER BY
  execution_index ASC\<close> yields: the rows of the run, ordered by the column.  The order
  among rows with equal \<open>execution_index\<close> is not specified by SQL; \<open>sort_key\<close> keeps the
  order of insertion there.
\<close>

definition run_rows :: "('r, 'e) SqlDB_docs \<Rightarrow> string \<Rightarrow> 'e exec_row list" where
  "run_rows db runID =
     sort_key row_execution_index (filter (\<lambda>r. row_run_id r = runID) (step_executions db))"

text \<open>
  The loop over the rows: each \<open>data\<close> is decoded and appended; the first decoding error
  ends the listing.  The first LibSQL store wraps that error, the second returns it as
  it is.
\<close>

fun scan_rows ::
  "(error \<Rightarrow> error) \<Rightarrow> ('e \<Rightarrow> error + StepExecution) \<Rightarrow> 'e exec_row list
     \<Rightarrow> error + StepExecution list" where
  "scan_rows wrap unmarshal [] = Inr []"
| "scan_rows wrap unmarshal (r # rs) =
     (case unmarshal (row_data r) of
        Inl err \<Rightarrow> Inl (wrap err)
      | Inr exec \<Rightarrow>
          (case scan_rows wrap unmarshal rs of
             Inl err \<Rightarrow> Inl err
           | Inr execs \<Rightarrow> Inr (exec # execs)))"


definition LibSQLStore2_ListStepExecutions ::
  "('e \<Rightarrow> error + StepExecution) \<Rightarrow> ('r, 'e) SqlDB_docs \<Rightarrow> string
     \<Rightarrow> error + StepExecution list" where
  "LibSQLStore2_ListStepExecutions unmarshal db runID =
     (case db_failure db of
        Some err \<Rightarrow> Inl (Wrapf ''failed to list step executions'' err)
      | None \<Rightarrow> scan_rows (\<lambda>err. err) unmarshal (run_rows db runID))"

text \<open>
  The step-execution writes of a LibSQL store as calls, and the database after a
  sequence of them on each of the two stores (a failed call leaves the database as it
  was).
\<close>

datatype exec_call = ExecCreate StepExecution | ExecUpdate StepExecution



fun libsql2_call ::
  "(StepExecution \<Rightarrow> error + 'e) \<Rightarrow> ('r, 'e) SqlDB_docs \<Rightarrow> exec_call \<Rightarrow> ('r, 'e) SqlDB_docs" where
  "libsql2_call marshal db (ExecCreate exec) =
     snd (LibSQLStore_CreateStepExecution marshal db exec)"
| "libsql2_call marshal db (ExecUpdate exec) =
     snd (LibSQLStore2_UpdateStepExecution marshal db exec)"

fun libsql2_calls ::
  "(StepExecution \<Rightarrow> error + 'e) \<Rightarrow> ('r, 'e) SqlDB_docs \<Rightarrow> exec_call list
     \<Rightarrow> ('r, 'e) SqlDB_docs" where
  "libsql2_calls marshal db [] = db"
| "libsql2_calls marshal db (c # cs) = libsql2_calls marshal (libsql2_call marshal db c) cs"






section \<open>Auxiliary notions and concrete values\<close>




text \<open>A run record and a step execution record with the given identity, for concrete runs.\<close>

definition sample_run :: "string \<Rightarrow> RunStatus \<Rightarrow> WorkflowRun" where
  "sample_run runID status =
     \<lparr>RunID = runID, WorkflowID = ''wf'', WorkflowVersion = ''1.0'', Status = status,
      Progress = 0, CreatedAt = 0, StartedAt = None, CompletedAt = None, UpdatedAt = 0,
      Input = Some ''1'', Output = None, Error = None, ResourceID = ''res'',
      Tags = None, Context = None\<rparr>"

definition sample_exec :: "string \<Rightarrow> string \<Rightarrow> int \<Rightarrow> StepExecution" where
  "sample_exec runID stepID idx =
     \<lparr>se_RunID = runID, se_StepID = stepID, se_ExecutionIndex = idx,
      se_Status = StepStatusCompleted, se_StartedAt = None, se_CompletedAt = None,
      se_DurationMs = 0, se_Input = None, se_Output = None, se_Error = None,
      se_Attempt = 0, se_CreatedAt = 0, se_UpdatedAt = 0\<rparr>"

definition sample_step :: "string \<Rightarrow> ExecutionConfig \<Rightarrow> Step" where
  "sample_step stepID config = \<lparr>step_ID = stepID, step_Name = stepID, step_Config = config\<rparr>"

definition sample_builder :: "ExecutionConfig \<Rightarrow> Step \<Rightarrow> Step \<Rightarrow> WorkflowBuilder" where
  "sample_builder config s1 s2 =
     \<lparr>workflow =
        \<lparr>wf_ID = ''wf'', wf_Name = ''wf'', wf_config = config,
         wf_steps = [step_ID s1 \<mapsto> s1, step_ID s2 \<mapsto> s2],
         wf_graph = \<lparr>Nodes = [(step_ID s1, NodeTypeSequential), (step_ID s2, NodeTypeSequential)]\<rparr>\<rparr>,
      lastStepIDs = [step_ID s2],
      currentChain = [step_ID s1, step_ID s2]\<rparr>"

text \<open>
  A model of \<open>encoding/json\<close> on the two record types, at the level of JSON documents,
  for concrete runs of the LibSQL store: the document that \<open>json.Marshal\<close> writes is
  identified with the record that \<open>json.Unmarshal\<close> reads from it.  By the struct tags
  of the records, a map or raw-message member tagged \<open>omitempty\<close> is left out of the
  document when it is empty, and a member that is left out is \<open>nil\<close> in the decoded
  record.  The other members are taken to survive the encoding as they are (strings of
  valid UTF-8, numbers, instants, raw messages that are compact JSON).
\<close>

definition omit_empty_bytes :: "bytes option \<Rightarrow> bytes option" where
  "omit_empty_bytes b = (case b of None \<Rightarrow> None | Some x \<Rightarrow> if x = [] then None else Some x)"

definition omit_empty_map :: "('k \<rightharpoonup> 'v) option \<Rightarrow> ('k \<rightharpoonup> 'v) option" where
  "omit_empty_map m =
     (case m of None \<Rightarrow> None | Some x \<Rightarrow> if x = Map.empty then None else Some x)"

definition json_Marshal_run :: "WorkflowRun \<Rightarrow> error + WorkflowRun" where
  "json_Marshal_run run =
     Inr (run\<lparr>Input := omit_empty_bytes (Input run),
              Output := omit_empty_bytes (Output run),
              Tags := omit_empty_map (Tags run),
              Context := omit_empty_bytes (Context run)\<rparr>)"

definition json_Unmarshal_run :: "WorkflowRun \<Rightarrow> error + WorkflowRun" where
  "json_Unmarshal_run doc = Inr doc"

definition json_Marshal_exec :: "StepExecution \<Rightarrow> error + StepExecution" where
  "json_Marshal_exec exec =
     Inr (exec\<lparr>se_Input := omit_empty_bytes (se_Input exec),
               se_Output := omit_empty_bytes (se_Output exec)\<rparr>)"

definition json_Unmarshal_exec :: "StepExecution \<Rightarrow> error + StepExecution" where
  "json_Unmarshal_exec doc = Inr doc"


text \<open>The empty database of a LibSQL store whose documents are of this kind.\<close>

definition NewLibSQL :: "(WorkflowRun, StepExecution) SqlDB_docs" where
  "NewLibSQL = NewSqlDB_docs"


section \<open>Properties of the backoff\<close>

lemma sint_mul_in_range:
  fixes a b :: "64 word"
  assumes "- (2 ^ 63) \<le> sint a * sint b" "sint a * sint b < 2 ^ 63"
  shows "sint (a * b) = sint a * sint b"
  using assms
  by (simp add: sint_word_ariths signed_take_bit_int_eq_self)

lemma sint_mul_nonneg:
  fixes a b :: "64 word"
  assumes a: "0 \<le> sint a" and b: "0 \<le> sint b" and r: "sint a * sint b < 2 ^ 63"
  shows "sint (a * b) = sint a * sint b"
proof -
  have "0 \<le> sint a * sint b" using a b by (rule mult_nonneg_nonneg)
  then have "- (2 ^ 63) \<le> sint a * sint b" by (rule order_trans [rotated]) simp
  then show ?thesis using r by (rule sint_mul_in_range)
qed

lemma sint_push_bit_1:
  assumes "n < 63"
  shows "sint (push_bit n (1 :: 64 word)) = 2 ^ n"
proof -
  have lt: "(2::int) ^ n < 2 ^ 63"
    by (rule power_strict_increasing) (use assms in simp_all)
  have ge: "- (2 ^ 63) \<le> (2::int) ^ n"
    by (rule order_trans [of _ 0]) simp_all
  have "push_bit n (1 :: 64 word) = word_of_int (2 ^ n)" by (simp add: push_bit_eq_mult)
  then have "sint (push_bit n (1 :: 64 word)) = signed_take_bit 63 ((2::int) ^ n)"
    by (simp only: sint_sbintrunc') simp
  also have "\<dots> = 2 ^ n"
    by (rule signed_take_bit_int_eq_self [OF ge lt])
  finally show ?thesis .
qed

lemma sint_baseDelay:
  fixes base :: go_int
  assumes "0 < sint base" "sint base * 1000000 < 2 ^ 63"
  shows "sint (base * Millisecond) = sint base * 1000000"
proof -
  have "sint (base * Millisecond) = sint base * sint Millisecond"
    by (rule sint_mul_in_range) (use assms in \<open>simp_all add: Millisecond_def\<close>)
  then show ?thesis by (simp add: Millisecond_def)
qed

lemma sint_pred:
  fixes a :: go_int
  assumes "1 \<le> sint a"
  shows "sint (a - 1) = sint a - 1"
proof -
  have "sint a < 2 ^ 63" using sint_lt [of a] by simp
  then show ?thesis using assms
    by (simp add: sint_word_ariths signed_take_bit_int_eq_self)
qed

lemma scaled_in_range:
  fixes base m :: go_int
  assumes b: "0 < sint base" and m: "1 \<le> sint m"
    and r: "sint base * 1000000 * sint m < 2 ^ 63"
  shows "sint (base * Millisecond * m) = sint base * sint m * 1000000"
proof -
  have "sint base * 1000000 * 1 \<le> sint base * 1000000 * sint m"
    using m b by (intro mult_left_mono) auto
  then have "sint base * 1000000 \<le> sint base * 1000000 * sint m"
    by (simp only: mult_1_right)
  then have "sint base * 1000000 < 2 ^ 63" using r by (rule le_less_trans)
  then have bd: "sint (base * Millisecond) = sint base * 1000000"
    by (rule sint_baseDelay [OF b])
  have p: "0 \<le> sint (base * Millisecond)" unfolding bd using b by simp
  have q: "0 \<le> sint m" using m by simp
  have r': "sint (base * Millisecond) * sint m < 2 ^ 63" unfolding bd by (rule r)
  have "sint (base * Millisecond * m) = sint (base * Millisecond) * sint m"
    by (rule sint_mul_nonneg [OF p q r'])
  then show ?thesis unfolding bd by (simp only: mult_ac)
qed

lemma exponential_in_range:
  fixes base :: go_int
  assumes b: "0 < sint base"
    and r: "sint base * 1000000 * 2 ^ n < 2 ^ 63"
  shows "sint (base * Millisecond * push_bit n 1) = sint base * 2 ^ n * 1000000"
proof -
  have "1 * (2::int) ^ n \<le> (sint base * 1000000) * 2 ^ n"
    using b by (intro mult_right_mono) auto
  then have "(2::int) ^ n \<le> sint base * 1000000 * 2 ^ n" by (simp only: mult_1)
  then have "(2::int) ^ n < 2 ^ 63" using r by (rule le_less_trans)
  then have n: "n < 63" by (simp only: power_strict_increasing_iff)
  have s: "sint (push_bit n (1::go_int)) = 2 ^ n" using n by (rule sint_push_bit_1)
  have m: "1 \<le> sint (push_bit n (1::go_int))" unfolding s by simp
  have r': "sint base * 1000000 * sint (push_bit n (1::go_int)) < 2 ^ 63"
    unfolding s by (rule r)
  show ?thesis using scaled_in_range [OF b m r'] unfolding s .
qed

lemma backoff_none: "CalculateBackoff base a ''NONE'' = Inr 0"
  by (simp add: CalculateBackoff_def Let_def)

lemma backoff_first_attempt: "CalculateBackoff base 0 s = Inr 0"
  by (simp add: CalculateBackoff_def)

lemma backoff_unknown_strategy:
  assumes "s \<noteq> ''NONE''" "s \<noteq> ''LINEAR''" "s \<noteq> ''EXPONENTIAL''"
  shows "CalculateBackoff base a s = CalculateBackoff base a ''LINEAR''"
  using assms by (simp add: CalculateBackoff_def Let_def)

lemma backoff_linear:
  assumes b: "0 < sint base" and a: "1 \<le> sint a"
    and r: "sint base * 1000000 * sint a < 2 ^ 63"
  shows "\<exists>d. CalculateBackoff base a ''LINEAR'' = Inr d \<and> sint d = sint base * sint a * 1000000"
proof -
  have "a \<noteq> 0" using a by auto
  then have "CalculateBackoff base a ''LINEAR'' = Inr (base * Millisecond * a)"
    by (simp add: CalculateBackoff_def Let_def)
  then show ?thesis using scaled_in_range [OF b a r] by simp
qed

lemma backoff_exponential:
  assumes b: "0 < sint base" and a: "1 \<le> sint a"
    and r: "sint base * 1000000 * 2 ^ nat (sint a - 1) < 2 ^ 63"
  shows "\<exists>d. CalculateBackoff base a ''EXPONENTIAL'' = Inr d
             \<and> sint d = sint base * 2 ^ nat (sint a - 1) * 1000000"
proof -
  have nz: "a \<noteq> 0" using a by auto
  have p: "sint (a - 1) = sint a - 1" using a by (rule sint_pred)
  then have "\<not> sint (a - 1) < 0" using a by simp
  then have "CalculateBackoff base a ''EXPONENTIAL''
               = Inr (base * Millisecond * push_bit (nat (sint a - 1)) 1)"
    using nz by (simp add: CalculateBackoff_def Let_def p)
  then show ?thesis using exponential_in_range [OF b r] by simp
qed

text \<open>
  Claim C3, as the code has it.  For a positive base delay and a non-negative attempt
  number: the strategy \<open>NONE\<close> gives no delay; attempt 0 gives no delay under every
  strategy; from attempt 1 on, \<open>LINEAR\<close> gives base times attempt milliseconds and
  \<open>EXPONENTIAL\<close> gives base times \<open>2 ^ (attempt - 1)\<close> milliseconds, provided that
  number of nanoseconds is below \<open>2 ^ 63\<close>, the range of \<open>time.Duration\<close>; a strategy
  string other than the three behaves as \<open>LINEAR\<close>; and the engine's wrapper computes
  the same.  The delay is a \<open>time.Duration\<close>, that is a count of nanoseconds.
\<close>

theorem CalculateBackoff_in_range:
  assumes "0 < sint base" and "0 \<le> sint a"
  shows "CalculateBackoff base a ''NONE'' = Inr 0
       \<and> CalculateBackoff base 0 s = Inr 0
       \<and> (1 \<le> sint a \<and> sint base * 1000000 * sint a < 2 ^ 63 \<longrightarrow>
            (\<exists>d. CalculateBackoff base a ''LINEAR'' = Inr d
                 \<and> sint d = sint base * sint a * 1000000))
       \<and> (1 \<le> sint a \<and> sint base * 1000000 * 2 ^ nat (sint a - 1) < 2 ^ 63 \<longrightarrow>
            (\<exists>d. CalculateBackoff base a ''EXPONENTIAL'' = Inr d
                 \<and> sint d = sint base * 2 ^ nat (sint a - 1) * 1000000))
       \<and> (s \<noteq> ''NONE'' \<and> s \<noteq> ''LINEAR'' \<and> s \<noteq> ''EXPONENTIAL'' \<longrightarrow>
            CalculateBackoff base a s = CalculateBackoff base a ''LINEAR'')
       \<and> calculateBackoff base a s = CalculateBackoff base a s"
proof (intro conjI impI)
  show "CalculateBackoff base a ''NONE'' = Inr 0" by (rule backoff_none)
  show "CalculateBackoff base 0 s = Inr 0" by (rule backoff_first_attempt)
  show "\<exists>d. CalculateBackoff base a ''LINEAR'' = Inr d \<and> sint d = sint base * sint a * 1000000"
    if "1 \<le> sint a \<and> sint base * 1000000 * sint a < 2 ^ 63"
    using that assms(1) by (intro backoff_linear) simp_all
  show "\<exists>d. CalculateBackoff base a ''EXPONENTIAL'' = Inr d
           \<and> sint d = sint base * 2 ^ nat (sint a - 1) * 1000000"
    if "1 \<le> sint a \<and> sint base * 1000000 * 2 ^ nat (sint a - 1) < 2 ^ 63"
    using that assms(1) by (intro backoff_exponential) simp_all
  show "CalculateBackoff base a s = CalculateBackoff base a ''LINEAR''"
    if "s \<noteq> ''NONE'' \<and> s \<noteq> ''LINEAR'' \<and> s \<noteq> ''EXPONENTIAL''"
    using that by (intro backoff_unknown_strategy) simp_all
  show "calculateBackoff base a s = CalculateBackoff base a s"
    by (simp add: calculateBackoff_def)
qed

text \<open>
  The theorem at base delay 100 ms, attempt 3 and the unknown strategy \<open>FIBONACCI\<close>:
  300 ms linear, 400 ms exponential, and the unknown strategy gives the linear 300 ms.
\<close>

theorem CalculateBackoff_in_range_witness:
  "0 < sint (100 :: go_int) \<and> 0 \<le> sint (3 :: go_int)
   \<and> CalculateBackoff 100 3 ''NONE'' = Inr 0
   \<and> (\<exists>d. CalculateBackoff 100 3 ''LINEAR'' = Inr d \<and> sint d = 300000000)
   \<and> (\<exists>d. CalculateBackoff 100 3 ''EXPONENTIAL'' = Inr d \<and> sint d = 400000000)
   \<and> CalculateBackoff 100 3 ''FIBONACCI'' = CalculateBackoff 100 3 ''LINEAR''"
  using CalculateBackoff_in_range [of 100 3 "''FIBONACCI''"] by simp

text \<open>
  Claim C3 as stated fails where the product leaves the range of \<open>time.Duration\<close>: with
  the default base delay of 1000 ms, the exponential delay of attempt 35 is not
  \<open>1000 * 2 ^ 34\<close> milliseconds but a negative duration.
\<close>

theorem CalculateBackoff_overflow_counterexample:
  "CalculateBackoff 1000 35 ''EXPONENTIAL'' = Inr (- 1266874889709551616)
   \<and> sint (- 1266874889709551616 :: Duration) = - 1266874889709551616
   \<and> sint (- 1266874889709551616 :: Duration) \<noteq> 1000 * 2 ^ (35 - 1) * 1000000"
  by (simp add: CalculateBackoff_def Millisecond_def)

section \<open>Properties of the stores\<close>

subsection \<open>Copies\<close>

lemma copy_bytes_id [simp]: "copy_bytes b = b"
  by (simp add: copy_bytes_def)

lemma copy_map_id [simp]: "copy_map m = m"
  by (simp add: copy_map_def)

lemma map_option_copy_map [simp]: "map_option copy_map x = x"
  by (cases x) simp_all

lemma map_option_copy_bytes [simp]: "map_option copy_bytes x = x"
  by (cases x) simp_all

lemma copy_error_id [simp]: "copy_error e = e"
  by (simp add: copy_error_def)

lemma map_option_copy_error [simp]: "map_option copy_error x = x"
  by (cases x) simp_all

lemma deepCopyRun_id [simp]: "deepCopyRun run = run"
  by (simp add: deepCopyRun_def option.map_ident)

subsection \<open>Creating a run twice\<close>

text \<open>
  Claim C10.  In the in-memory store, \<open>CreateRun\<close> with a run id that already exists
  returns an error and the store it returns is the store it was given: the stored run
  record and the run's step executions, step outputs and state entries are as before.
\<close>

theorem CreateRun_existing_unchanged:
  assumes "runs s (RunID run) = Some old"
  shows "\<exists>err s'. CreateRun s run = (Some err, s') \<and> s' = s
           \<and> GetRun s' (RunID run) = Inr old
           \<and> stepExecutions s' (RunID run) = stepExecutions s (RunID run)
           \<and> stepOutputs s' (RunID run) = stepOutputs s (RunID run)
           \<and> state s' (RunID run) = state s (RunID run)"
  using assms by (simp add: CreateRun_def GetRun_def)

text \<open>
  The theorem on a store that holds a completed run with one state entry: creating a
  pending run under the same id fails, and the completed run and its state are still
  there.
\<close>

theorem CreateRun_existing_unchanged_witness:
  "runs (do_calls NewMemoryStore
           [CallCreateRun (sample_run ''run-1'' RunStatusCompleted),
            CallSaveState ''run-1'' ''k'' ''1''])
        (RunID (sample_run ''run-1'' RunStatusPending))
     = Some (sample_run ''run-1'' RunStatusCompleted)
   \<and> fst (CreateRun
             (do_calls NewMemoryStore
                [CallCreateRun (sample_run ''run-1'' RunStatusCompleted),
                 CallSaveState ''run-1'' ''k'' ''1''])
             (sample_run ''run-1'' RunStatusPending)) \<noteq> None
   \<and> LoadState
         (snd (CreateRun
                 (do_calls NewMemoryStore
                    [CallCreateRun (sample_run ''run-1'' RunStatusCompleted),
                     CallSaveState ''run-1'' ''k'' ''1''])
                 (sample_run ''run-1'' RunStatusPending)))
         ''run-1'' ''k'' = Inr ''1''"
proof -
  have h: "runs (do_calls NewMemoryStore
                   [CallCreateRun (sample_run ''run-1'' RunStatusCompleted),
                    CallSaveState ''run-1'' ''k'' ''1''])
                (RunID (sample_run ''run-1'' RunStatusPending))
             = Some (sample_run ''run-1'' RunStatusCompleted)"
    by (simp add: NewMemoryStore_def CreateRun_def SaveState_def sample_run_def)
  have l: "LoadState (do_calls NewMemoryStore
                   [CallCreateRun (sample_run ''run-1'' RunStatusCompleted),
                    CallSaveState ''run-1'' ''k'' ''1'']) ''run-1'' ''k'' = Inr ''1''"
    by (simp add: NewMemoryStore_def CreateRun_def SaveState_def LoadState_def sample_run_def)
  show ?thesis
    using h l CreateRun_existing_unchanged [OF h] by auto
qed

subsection \<open>Round trips\<close>

lemma create_get:
  "(runs s (RunID run) = None \<longrightarrow> fst (CreateRun s run) = None) \<and>
   (\<forall>s'. CreateRun s run = (None, s') \<longrightarrow> GetRun s' (RunID run) = Inr run)"
  by (auto simp add: CreateRun_def GetRun_def split: if_splits)

lemma save_load_output:
  "\<exists>s'. SaveStepOutput s runID stepID b = (None, s') \<and> LoadStepOutput s' runID stepID = Inr b"
  by (simp add: SaveStepOutput_def LoadStepOutput_def Let_def)

lemma libsql_save_load_output:
  "(db_failure db = None \<longrightarrow> fst (LibSQLStore_SaveStepOutput db runID stepID b) = None) \<and>
   (\<forall>db'. LibSQLStore_SaveStepOutput db runID stepID b = (None, db') \<longrightarrow>
      LibSQLStore_LoadStepOutput db' runID stepID = Inr b)"
  by (auto simp add: LibSQLStore_SaveStepOutput_def LibSQLStore_LoadStepOutput_def QueryRow_def
      split: option.splits)

lemma libsql_create_run_succeeds:
  assumes "marshal run = Inr data" "db_failure db = None" "workflow_runs db (RunID run) = None"
  shows "fst (LibSQLStore_CreateRun marshal db run) = None"
  using assms by (simp add: LibSQLStore_CreateRun_def)

lemma libsql_create_get_run:
  assumes "LibSQLStore_CreateRun marshal db run = (None, db')"
  shows "\<exists>data. marshal run = Inr data
           \<and> LibSQLStore_GetRun unmarshal db' (RunID run) =
               (case unmarshal data of
                  Inl err \<Rightarrow> Inl (Wrapf ''failed to unmarshal run'' err)
                | Inr r \<Rightarrow> Inr r)"
proof (cases "marshal run")
  case (Inl err)
  then show ?thesis using assms by (simp add: LibSQLStore_CreateRun_def)
next
  case (Inr data)
  then have "db_failure db = None" and "workflow_runs db (RunID run) = None"
    and "db' = db\<lparr>workflow_runs := (workflow_runs db)(RunID run \<mapsto> data)\<rparr>"
    using assms
    by (auto simp add: LibSQLStore_CreateRun_def split: option.splits if_splits)
  then have "LibSQLStore_GetRun unmarshal db' (RunID run) =
               (case unmarshal data of
                  Inl err \<Rightarrow> Inl (Wrapf ''failed to unmarshal run'' err)
                | Inr r \<Rightarrow> Inr r)"
    by (simp add: LibSQLStore_GetRun_def)
  then show ?thesis using Inr by blast
qed

lemma libsql2_save_load_output:
  assumes "LibSQLStore_SaveStepOutput db runID stepID b = (None, db')"
  shows "LibSQLStore2_LoadStepOutput db' runID stepID = Inr b"
  using assms
  by (auto simp add: LibSQLStore_SaveStepOutput_def LibSQLStore2_LoadStepOutput_def QueryRow_def
      split: option.splits)

lemma libsql2_get_created_run:
  assumes "LibSQLStore_CreateRun marshal db run = (None, db')"
  shows "LibSQLStore2_GetRun unmarshal db' (RunID run)
           = LibSQLStore_GetRun unmarshal db' (RunID run)"
proof (cases "marshal run")
  case (Inl err)
  then show ?thesis using assms by (simp add: LibSQLStore_CreateRun_def)
next
  case (Inr data)
  then have "db_failure db = None"
    and "db' = db\<lparr>workflow_runs := (workflow_runs db)(RunID run \<mapsto> data)\<rparr>"
    using assms
    by (auto simp add: LibSQLStore_CreateRun_def split: option.splits if_splits)
  then show ?thesis
    by (simp add: LibSQLStore_GetRun_def LibSQLStore2_GetRun_def)
qed

text \<open>
  Claim C4, as the code has it.  In the in-memory store, creating a run record under a
  fresh run id succeeds, and whenever \<open>CreateRun\<close> succeeds, \<open>GetRun\<close> of that id yields a
  record equal to the one created.  In the LibSQL store, creating a run record under a
  fresh run id succeeds when the record can be encoded and the database executes the
  statement, and whenever \<open>CreateRun\<close> succeeds, \<open>GetRun\<close> of that id yields what
  \<open>json.Unmarshal\<close> decodes from the encoding of the record: a record equal to the one
  created when the record round-trips through JSON.  Upserting a step output and then
  loading it yields exactly the bytes given: always in the in-memory store, and in the
  LibSQL store whenever the upsert succeeds, which it does when the database executes the
  statement.  The second LibSQL store, whose \<open>CreateRun\<close> and \<open>SaveStepOutput\<close> are the
  same text, reads a created run and a saved step output back as the first does.
\<close>

theorem store_round_trips:
  "(runs s (RunID run) = None \<longrightarrow> fst (CreateRun s run) = None)
   \<and> (\<forall>s'. CreateRun s run = (None, s') \<longrightarrow> GetRun s' (RunID run) = Inr run)
   \<and> (\<exists>s'. SaveStepOutput s runID stepID b = (None, s')
            \<and> LoadStepOutput s' runID stepID = Inr b)
   \<and> (db_failure db = None \<longrightarrow> fst (LibSQLStore_SaveStepOutput db runID stepID b) = None)
   \<and> (\<forall>db'. LibSQLStore_SaveStepOutput db runID stepID b = (None, db') \<longrightarrow>
         LibSQLStore_LoadStepOutput db' runID stepID = Inr b)
   \<and> (\<forall>data. marshal run = Inr data \<and> db_failure dbr = None
         \<and> workflow_runs dbr (RunID run) = None \<longrightarrow>
         fst (LibSQLStore_CreateRun marshal dbr run) = None)
   \<and> (\<forall>dbr'. LibSQLStore_CreateRun marshal dbr run = (None, dbr') \<longrightarrow>
         (\<exists>data. marshal run = Inr data
            \<and> LibSQLStore_GetRun unmarshal dbr' (RunID run) =
                (case unmarshal data of
                   Inl err \<Rightarrow> Inl (Wrapf ''failed to unmarshal run'' err)
                 | Inr r \<Rightarrow> Inr r)))
   \<and> (\<forall>dbr' data. LibSQLStore_CreateRun marshal dbr run = (None, dbr')
         \<and> marshal run = Inr data \<and> unmarshal data = Inr run \<longrightarrow>
         LibSQLStore_GetRun unmarshal dbr' (RunID run) = Inr run)
   \<and> (\<forall>dbr'. LibSQLStore_CreateRun marshal dbr run = (None, dbr') \<longrightarrow>
         LibSQLStore2_GetRun unmarshal dbr' (RunID run)
           = LibSQLStore_GetRun unmarshal dbr' (RunID run))
   \<and> (\<forall>db'. LibSQLStore_SaveStepOutput db runID stepID b = (None, db') \<longrightarrow>
         LibSQLStore2_LoadStepOutput db' runID stepID = Inr b)"
proof -
  have g: "LibSQLStore_GetRun unmarshal dbr' (RunID run) = Inr run"
    if "LibSQLStore_CreateRun marshal dbr run = (None, dbr')
        \<and> marshal run = Inr data \<and> unmarshal data = Inr run" for dbr' data
    using libsql_create_get_run [of marshal dbr run dbr' unmarshal] that by auto
  show ?thesis
    using create_get [of s run] save_load_output [of s runID stepID b]
      libsql_save_load_output [of db runID stepID b]
      libsql_create_run_succeeds [of marshal run _ dbr]
      libsql_create_get_run [of marshal dbr run _ unmarshal] g
      libsql2_get_created_run [of marshal dbr run _ unmarshal]
      libsql2_save_load_output [of db runID stepID b]
    by blast
qed

text \<open>
  The theorem on the empty stores: a run and a step output written to them are read back
  unchanged; the run has no tags and a non-empty input, and round-trips through JSON.
\<close>

theorem store_round_trips_witness:
  "runs NewMemoryStore (RunID (sample_run ''run-1'' RunStatusPending)) = None
   \<and> db_failure NewSqlDB = None
   \<and> fst (CreateRun NewMemoryStore (sample_run ''run-1'' RunStatusPending)) = None
   \<and> GetRun (snd (CreateRun NewMemoryStore (sample_run ''run-1'' RunStatusPending))) ''run-1''
       = Inr (sample_run ''run-1'' RunStatusPending)
   \<and> LoadStepOutput (snd (SaveStepOutput NewMemoryStore ''run-1'' ''step-1'' ''42''))
        ''run-1'' ''step-1'' = Inr ''42''
   \<and> LibSQLStore_LoadStepOutput
        (snd (LibSQLStore_SaveStepOutput NewSqlDB ''run-1'' ''step-1'' ''42''))
        ''run-1'' ''step-1'' = Inr ''42''
   \<and> json_Marshal_run (sample_run ''run-1'' RunStatusPending)
       = Inr (sample_run ''run-1'' RunStatusPending)
   \<and> json_Unmarshal_run (sample_run ''run-1'' RunStatusPending)
       = Inr (sample_run ''run-1'' RunStatusPending)
   \<and> db_failure NewLibSQL = None
   \<and> workflow_runs NewLibSQL (RunID (sample_run ''run-1'' RunStatusPending)) = None
   \<and> fst (LibSQLStore_CreateRun json_Marshal_run NewLibSQL
             (sample_run ''run-1'' RunStatusPending)) = None
   \<and> LibSQLStore_GetRun json_Unmarshal_run
        (snd (LibSQLStore_CreateRun json_Marshal_run NewLibSQL
                (sample_run ''run-1'' RunStatusPending)))
        ''run-1'' = Inr (sample_run ''run-1'' RunStatusPending)
   \<and> LibSQLStore2_GetRun json_Unmarshal_run
        (snd (LibSQLStore_CreateRun json_Marshal_run NewLibSQL
                (sample_run ''run-1'' RunStatusPending)))
        ''run-1'' = Inr (sample_run ''run-1'' RunStatusPending)
   \<and> LibSQLStore2_LoadStepOutput
        (snd (LibSQLStore_SaveStepOutput NewSqlDB ''run-1'' ''step-1'' ''42''))
        ''run-1'' ''step-1'' = Inr ''42''"
proof -
  let ?r = "sample_run ''run-1'' RunStatusPending"
  have h1: "runs NewMemoryStore (RunID ?r) = None"
    by (simp add: NewMemoryStore_def)
  have h2: "db_failure NewSqlDB = None"
    by (simp add: NewSqlDB_def)
  have id: "RunID ?r = ''run-1''"
    by (simp add: sample_run_def)
  have m: "json_Marshal_run ?r = Inr ?r"
    by (simp add: json_Marshal_run_def sample_run_def omit_empty_bytes_def omit_empty_map_def)
  have u: "json_Unmarshal_run ?r = Inr ?r"
    by (simp add: json_Unmarshal_run_def)
  have h3: "db_failure NewLibSQL = None" and h4: "workflow_runs NewLibSQL (RunID ?r) = None"
    by (simp_all add: NewLibSQL_def NewSqlDB_docs_def)
  note t = store_round_trips [of NewMemoryStore ?r "''run-1''" "''step-1''" "''42''" NewSqlDB
      json_Marshal_run NewLibSQL json_Unmarshal_run]
  from t h1 have c: "fst (CreateRun NewMemoryStore ?r) = None"
    by blast
  then have "CreateRun NewMemoryStore ?r = (None, snd (CreateRun NewMemoryStore ?r))"
    by (metis prod.collapse)
  with t have g: "GetRun (snd (CreateRun NewMemoryStore ?r)) ''run-1'' = Inr ?r"
    unfolding id by blast
  from t have o: "LoadStepOutput (snd (SaveStepOutput NewMemoryStore ''run-1'' ''step-1'' ''42''))
        ''run-1'' ''step-1'' = Inr ''42''"
    by auto
  from t h2 have "fst (LibSQLStore_SaveStepOutput NewSqlDB ''run-1'' ''step-1'' ''42'') = None"
    by blast
  then have sv: "LibSQLStore_SaveStepOutput NewSqlDB ''run-1'' ''step-1'' ''42''
      = (None, snd (LibSQLStore_SaveStepOutput NewSqlDB ''run-1'' ''step-1'' ''42''))"
    by (metis prod.collapse)
  with t have q: "LibSQLStore_LoadStepOutput
        (snd (LibSQLStore_SaveStepOutput NewSqlDB ''run-1'' ''step-1'' ''42''))
        ''run-1'' ''step-1'' = Inr ''42''"
    by blast
  from t sv have q2: "LibSQLStore2_LoadStepOutput
        (snd (LibSQLStore_SaveStepOutput NewSqlDB ''run-1'' ''step-1'' ''42''))
        ''run-1'' ''step-1'' = Inr ''42''"
    by blast
  from t m h3 h4 have lc: "fst (LibSQLStore_CreateRun json_Marshal_run NewLibSQL ?r) = None"
    by blast
  then have cr: "LibSQLStore_CreateRun json_Marshal_run NewLibSQL ?r
      = (None, snd (LibSQLStore_CreateRun json_Marshal_run NewLibSQL ?r))"
    by (metis prod.collapse)
  with t m u have lg: "LibSQLStore_GetRun json_Unmarshal_run
        (snd (LibSQLStore_CreateRun json_Marshal_run NewLibSQL ?r)) ''run-1'' = Inr ?r"
    unfolding id by blast
  from t cr have "LibSQLStore2_GetRun json_Unmarshal_run
        (snd (LibSQLStore_CreateRun json_Marshal_run NewLibSQL ?r)) ''run-1''
      = LibSQLStore_GetRun json_Unmarshal_run
        (snd (LibSQLStore_CreateRun json_Marshal_run NewLibSQL ?r)) ''run-1''"
    unfolding id by blast
  with lg have lg2: "LibSQLStore2_GetRun json_Unmarshal_run
        (snd (LibSQLStore_CreateRun json_Marshal_run NewLibSQL ?r)) ''run-1'' = Inr ?r"
    by simp
  show ?thesis using h1 h2 h3 h4 c g o q m u lc lg lg2 q2 by simp
qed

text \<open>
  Claim C4 as stated fails in the LibSQL store: a run record whose tags are an empty,
  non-\<open>nil\<close> map is created with success, and \<open>GetRun\<close> yields a record whose tags are
  \<open>nil\<close>, since the member \<open>tags\<close> is tagged \<open>omitempty\<close> and is left out of the stored
  document.
\<close>

theorem LibSQLStore_run_round_trip_counterexample:
  "fst (LibSQLStore_CreateRun json_Marshal_run NewLibSQL
          ((sample_run ''run-1'' RunStatusPending)\<lparr>Tags := Some Map.empty\<rparr>)) = None
   \<and> LibSQLStore_GetRun json_Unmarshal_run
        (snd (LibSQLStore_CreateRun json_Marshal_run NewLibSQL
                ((sample_run ''run-1'' RunStatusPending)\<lparr>Tags := Some Map.empty\<rparr>)))
        ''run-1''
      = Inr ((sample_run ''run-1'' RunStatusPending)\<lparr>Tags := None\<rparr>)
   \<and> (sample_run ''run-1'' RunStatusPending)\<lparr>Tags := None\<rparr>
      \<noteq> (sample_run ''run-1'' RunStatusPending)\<lparr>Tags := Some Map.empty\<rparr>"
  by (simp add: LibSQLStore_CreateRun_def LibSQLStore_GetRun_def json_Marshal_run_def
      json_Unmarshal_run_def NewLibSQL_def NewSqlDB_docs_def sample_run_def
      omit_empty_bytes_def omit_empty_map_def)

subsection \<open>Listing step executions\<close>





































text \<open>
  In the second LibSQL store an update with a record that carries another index breaks
  the agreement of the column and the record: step \<open>a\<close>, created with index 0 and updated
  with a record of index 5, is still listed first, before step \<open>b\<close> of index 1.
\<close>

lemma LibSQLStore2_update_leaves_column:
  "LibSQLStore2_ListStepExecutions json_Unmarshal_exec
     (libsql2_calls json_Marshal_exec NewLibSQL
        [ExecCreate (sample_exec ''run-1'' ''b'' 1),
         ExecCreate (sample_exec ''run-1'' ''a'' 0),
         ExecUpdate (sample_exec ''run-1'' ''a'' 5)]) ''run-1''
     = Inr [sample_exec ''run-1'' ''a'' 5, sample_exec ''run-1'' ''b'' 1]"
  by (simp add: LibSQLStore2_ListStepExecutions_def run_rows_def NewLibSQL_def NewSqlDB_docs_def
      LibSQLStore_CreateStepExecution_def LibSQLStore2_UpdateStepExecution_def has_row_def
      json_Marshal_exec_def json_Unmarshal_exec_def sample_exec_def omit_empty_bytes_def)


subsection \<open>The status of a run\<close>

lemma run_status_do_call:
  assumes "\<not> writes_status runID c" and "run_status s runID = Some st"
  shows "run_status (snd (do_call s c)) runID = Some st"
proof (cases c)
  case (CallCreateRun run)
  then show ?thesis using assms
    by (auto simp add: run_status_def GetRun_def CreateRun_def split: option.splits)
next
  case (CallUpdateRun run)
  then show ?thesis using assms
    by (auto simp add: run_status_def GetRun_def UpdateRun_def split: option.splits)
next
  case (CallUpdateRunStatus runID' status err)
  then show ?thesis using assms
    by (auto simp add: run_status_def GetRun_def UpdateRunStatus_def split: option.splits)
next
  case (CallCreateStepExecution exec)
  then show ?thesis using assms
    by (simp add: run_status_def GetRun_def CreateStepExecution_def Let_def)
next
  case (CallUpdateStepExecution exec)
  then show ?thesis using assms
    by (simp add: run_status_def GetRun_def UpdateStepExecution_def split: option.splits)
next
  case (CallSaveStepOutput runID' stepID out)
  then show ?thesis using assms
    by (simp add: run_status_def GetRun_def SaveStepOutput_def Let_def)
next
  case (CallSaveState runID' key val)
  then show ?thesis using assms
    by (simp add: run_status_def GetRun_def SaveState_def Let_def)
next
  case (CallDeleteState runID' key)
  then show ?thesis using assms
    by (simp add: run_status_def GetRun_def DeleteState_def split: option.splits)
qed

lemma run_status_do_calls:
  assumes "\<forall>c \<in> set cs. \<not> writes_status runID c" and "run_status s runID = Some st"
  shows "run_status (do_calls s cs) runID = Some st"
  using assms by (induction cs arbitrary: s) (simp_all add: run_status_do_call)

lemma UpdateRunStatus_sets:
  assumes "run_status s runID = Some old"
  shows "fst (UpdateRunStatus s runID status err) = None"
    and "run_status (snd (UpdateRunStatus s runID status err)) runID = Some status"
  using assms
  by (auto simp add: run_status_def GetRun_def UpdateRunStatus_def split: option.splits)

lemma UpdateRun_sets:
  assumes "run_status s (RunID run) = Some old"
  shows "fst (UpdateRun s run) = None"
    and "run_status (snd (UpdateRun s run)) (RunID run) = Some (Status run)"
  using assms
  by (auto simp add: run_status_def GetRun_def UpdateRun_def split: option.splits)

text \<open>
  Claim C2, as the code has it.  In the in-memory store the status of an existing run,
  terminal or not, changes only through \<open>UpdateRun\<close> and \<open>UpdateRunStatus\<close> addressed to
  that run: any sequence of other store calls leaves it as it was.  Those two methods do
  not look at the current status: on an existing run each succeeds and sets the status
  it is given.
\<close>

theorem run_status_written_only_by_updates:
  assumes "run_status s runID = Some st"
  shows "((\<forall>c \<in> set cs. \<not> writes_status runID c) \<longrightarrow>
            run_status (do_calls s cs) runID = Some st)
       \<and> fst (UpdateRunStatus s runID status err) = None
       \<and> run_status (snd (UpdateRunStatus s runID status err)) runID = Some status
       \<and> (RunID run = runID \<longrightarrow>
            fst (UpdateRun s run) = None
            \<and> run_status (snd (UpdateRun s run)) runID = Some (Status run))"
  using assms run_status_do_calls [of cs runID s st]
    UpdateRunStatus_sets [of s runID st status err] UpdateRun_sets [of s run st]
  by auto

text \<open>
  The theorem on a store with a completed run: writes of state and outputs, and a second
  \<open>CreateRun\<close> under its id, leave the run completed.
\<close>

theorem run_status_written_only_by_updates_witness:
  "run_status (do_calls NewMemoryStore [CallCreateRun (sample_run ''run-1'' RunStatusCompleted)])
      ''run-1'' = Some RunStatusCompleted
   \<and> \<not> writes_status ''run-1'' (CallSaveState ''run-1'' ''k'' ''1'')
   \<and> \<not> writes_status ''run-1'' (CallCreateRun (sample_run ''run-1'' RunStatusRunning))
   \<and> \<not> writes_status ''run-1'' (CallSaveStepOutput ''run-1'' ''step-1'' ''2'')
   \<and> \<not> writes_status ''run-1'' (CallUpdateRunStatus ''run-2'' RunStatusFailed None)
   \<and> run_status
        (do_calls
           (do_calls NewMemoryStore [CallCreateRun (sample_run ''run-1'' RunStatusCompleted)])
           [CallSaveState ''run-1'' ''k'' ''1'',
            CallCreateRun (sample_run ''run-1'' RunStatusRunning),
            CallSaveStepOutput ''run-1'' ''step-1'' ''2'',
            CallUpdateRunStatus ''run-2'' RunStatusFailed None])
        ''run-1'' = Some RunStatusCompleted"
proof -
  have h: "run_status
      (do_calls NewMemoryStore [CallCreateRun (sample_run ''run-1'' RunStatusCompleted)])
      ''run-1'' = Some RunStatusCompleted"
    by (simp add: run_status_def GetRun_def NewMemoryStore_def CreateRun_def sample_run_def)
  have w: "\<forall>c \<in> set [CallSaveState ''run-1'' ''k'' ''1'',
                 CallCreateRun (sample_run ''run-1'' RunStatusRunning),
                 CallSaveStepOutput ''run-1'' ''step-1'' ''2'',
                 CallUpdateRunStatus ''run-2'' RunStatusFailed None].
         \<not> writes_status ''run-1'' c"
    by simp
  have "run_status
        (do_calls
           (do_calls NewMemoryStore [CallCreateRun (sample_run ''run-1'' RunStatusCompleted)])
           [CallSaveState ''run-1'' ''k'' ''1'',
            CallCreateRun (sample_run ''run-1'' RunStatusRunning),
            CallSaveStepOutput ''run-1'' ''step-1'' ''2'',
            CallUpdateRunStatus ''run-2'' RunStatusFailed None])
        ''run-1'' = Some RunStatusCompleted"
    using w
      run_status_written_only_by_updates [OF h,
        of "[CallSaveState ''run-1'' ''k'' ''1'',
             CallCreateRun (sample_run ''run-1'' RunStatusRunning),
             CallSaveStepOutput ''run-1'' ''step-1'' ''2'',
             CallUpdateRunStatus ''run-2'' RunStatusFailed None]"]
    by blast
  then show ?thesis
    using h by simp
qed

text \<open>
  Claim C2 as stated fails: a run that \<open>UpdateRunStatus\<close> has made \<open>COMPLETED\<close>, a
  terminal status, is made \<open>FAILED\<close> by the next \<open>UpdateRunStatus\<close>, a second transition
  into a terminal status.
\<close>

theorem terminal_status_overwritten_counterexample:
  "run_status
     (do_calls NewMemoryStore
        [CallCreateRun (sample_run ''run-1'' RunStatusPending),
         CallUpdateRunStatus ''run-1'' RunStatusCompleted None]) ''run-1''
     = Some RunStatusCompleted
   \<and> RunStatus_IsTerminal RunStatusCompleted
   \<and> run_status
       (do_calls NewMemoryStore
          [CallCreateRun (sample_run ''run-1'' RunStatusPending),
           CallUpdateRunStatus ''run-1'' RunStatusCompleted None,
           CallUpdateRunStatus ''run-1'' RunStatusFailed None]) ''run-1''
     = Some RunStatusFailed
   \<and> RunStatus_IsTerminal RunStatusFailed
   \<and> RunStatusFailed \<noteq> RunStatusCompleted"
  by (simp add: run_status_def GetRun_def NewMemoryStore_def CreateRun_def UpdateRunStatus_def
      sample_run_def RunStatus_IsTerminal_def RunStatusCompleted_def RunStatusFailed_def
      RunStatusCancelled_def RunStatusPending_def)

subsection \<open>Reads of a missing entity\<close>

lemma MemoryStore_missing_reads:
  "(runs s runID = None \<longrightarrow> GetRun s runID = Inl ErrRunNotFound)
   \<and> (stepExecutions s runID = None \<or>
        (\<exists>m. stepExecutions s runID = Some m \<and> map_of m stepID = None) \<longrightarrow>
        GetStepExecution s runID stepID = Inl ErrStepExecutionNotFound)
   \<and> (stepOutputs s runID = None \<or> (\<exists>m. stepOutputs s runID = Some m \<and> m stepID = None) \<longrightarrow>
        LoadStepOutput s runID stepID = Inl ErrStepOutputNotFound)
   \<and> (state s runID = None \<or> (\<exists>m. state s runID = Some m \<and> m key = None) \<longrightarrow>
        LoadState s runID key = Inl ErrStateNotFound)"
  by (auto simp add: GetRun_def GetStepExecution_def LoadStepOutput_def LoadState_def)

lemma LibSQLStore_missing_reads:
  assumes "db_failure db = None"
  shows "step_outputs db (runID, stepID) = None \<longrightarrow>
           LibSQLStore_LoadStepOutput db runID stepID = Inl ErrStepOutputNotFound"
    and "workflow_state db (runID, key) = None \<longrightarrow>
           LibSQLStore_LoadState db runID key = Inl ErrStateNotFound"
  using assms
  by (simp_all add: LibSQLStore_LoadStepOutput_def LibSQLStore_LoadState_def QueryRow_def)

text \<open>
  Claim C6 at the second LibSQL store of the repository.  On a working database without
  the row asked for, its \<open>LoadStepOutput\<close> and \<open>LoadState\<close> return an error built from a
  message, which is neither \<open>ErrStepOutputNotFound\<close> nor \<open>ErrStateNotFound\<close>; the
  in-memory store and the other LibSQL store return the dedicated errors there.
\<close>

theorem LibSQLStore2_missing_row_opaque:
  "LibSQLStore2_LoadStepOutput NewSqlDB ''run-1'' ''step-1''
     = Inl (Errorf ''step output not found: run-1/step-1'')
   \<and> LibSQLStore2_LoadStepOutput NewSqlDB ''run-1'' ''step-1'' \<noteq> Inl ErrStepOutputNotFound
   \<and> LibSQLStore2_LoadState NewSqlDB ''run-1'' ''k'' = Inl (Errorf ''state not found: run-1/k'')
   \<and> LibSQLStore2_LoadState NewSqlDB ''run-1'' ''k'' \<noteq> Inl ErrStateNotFound
   \<and> LibSQLStore_LoadStepOutput NewSqlDB ''run-1'' ''step-1'' = Inl ErrStepOutputNotFound
   \<and> LoadStepOutput NewMemoryStore ''run-1'' ''step-1'' = Inl ErrStepOutputNotFound"
  by (simp add: LibSQLStore2_LoadStepOutput_def LibSQLStore2_LoadState_def
      LibSQLStore_LoadStepOutput_def LoadStepOutput_def QueryRow_def NewSqlDB_def
      NewMemoryStore_def)

section \<open>Properties of the accessors\<close>

subsection \<open>The state accessor\<close>

lemma Set_marshal_fails:
  assumes "marshal v = Inl err"
  shows "stateAccessor_Set S marshal a st key v =
           (Some (Wrapf (''failed to marshal state value for key '' @ key) err), a, st)"
  using assms by (simp add: stateAccessor_Set_def)

lemma Set_store_ok:
  assumes "marshal v = Inr data" "store_SaveState S st (sa_runID a) key data = (None, st')"
  shows "stateAccessor_Set S marshal a st key v =
           (None, a\<lparr>cache := (cache a)(key \<mapsto> data)\<rparr>, st')"
  using assms by (simp add: stateAccessor_Set_def Let_def)

lemma Set_store_fails:
  assumes "marshal v = Inr data" "store_SaveState S st (sa_runID a) key data = (Some err, st')"
  shows "stateAccessor_Set S marshal a st key v =
           (Some (Wrapf (''failed to save state for key '' @ key) err),
            a\<lparr>cache := (cache a)(key \<mapsto> data)\<rparr>, st')"
  using assms by (simp add: stateAccessor_Set_def Let_def)

lemma Set_MemoryStore:
  assumes "marshal v = Inr data"
  shows "\<exists>s'. stateAccessor_Set MemoryStore_methods marshal a s key v =
             (None, a\<lparr>cache := (cache a)(key \<mapsto> data)\<rparr>, s')
           \<and> LoadState s' (sa_runID a) key = Inr data"
  using assms
  by (simp add: stateAccessor_Set_def MemoryStore_methods_def SaveState_def LoadState_def Let_def)

lemma Set_success_cache:
  assumes "stateAccessor_Set S marshal a st key v = (None, a', st')"
  shows "\<exists>data. marshal v = Inr data \<and> cache a' key = Some data"
  using assms
  by (auto simp add: stateAccessor_Set_def Let_def split: sum.splits option.splits prod.splits)

lemma Get_cached:
  assumes "cache a key = Some data"
  shows "stateAccessor_Get S unmarshal a st key = (unmarshal data, a, st)"
  using assms by (simp add: stateAccessor_Get_def)

lemma Set_Get:
  assumes "json_roundtrip marshal unmarshal v"
    and "stateAccessor_Set S marshal a st key v = (None, a', st')"
  shows "stateAccessor_Get S unmarshal a' st' key = (Inr v, a', st')"
proof -
  obtain data where d: "marshal v = Inr data" "cache a' key = Some data"
    using Set_success_cache [OF assms(2)] by blast
  have "unmarshal data = Inr v"
    using assms(1) d(1) by (simp add: json_roundtrip_def)
  then show ?thesis by (simp add: Get_cached [OF d(2)])
qed

lemma Delete_Has_MemoryStore:
  assumes "stateAccessor_Delete MemoryStore_methods a s key = (None, a', s')"
  shows "stateAccessor_Has MemoryStore_methods a' s' key = (False, a', s')"
  using assms
  by (auto simp add: stateAccessor_Delete_def stateAccessor_Has_def MemoryStore_methods_def
      DeleteState_def LoadState_def Let_def split: option.splits)

lemma Delete_Has_LibSQLStore:
  assumes "stateAccessor_Delete LibSQLStore_methods a db key = (None, a', db')"
  shows "stateAccessor_Has LibSQLStore_methods a' db' key = (False, a', db')"
  using assms
  by (auto simp add: stateAccessor_Delete_def stateAccessor_Has_def LibSQLStore_methods_def
      LibSQLStore_DeleteState_def LibSQLStore_LoadState_def QueryRow_def Let_def
      split: option.splits)

text \<open>
  Claim C1, as the code has it.  \<open>Set\<close> serializes the value, stores the bytes in the
  accessor's cache entry for the key, and then writes them to the store.  When
  serialization fails, \<open>Set\<close> returns an error and touches neither cache nor store.  When
  the store write succeeds, \<open>Set\<close> returns no error, the cache entry holds the bytes and
  the store is as the write left it; over the in-memory store the write always succeeds
  and the store then holds the bytes for the key.  When the store write fails, \<open>Set\<close>
  returns an error that wraps the store's, and the cache entry for the key holds the
  new bytes: the cache is written first and not restored.
\<close>

theorem Set_writes_cache_then_store:
  "(\<forall>err. marshal v = Inl err \<longrightarrow>
       stateAccessor_Set S marshal a st key v =
         (Some (Wrapf (''failed to marshal state value for key '' @ key) err), a, st))
   \<and> (\<forall>data st'. marshal v = Inr data
         \<and> store_SaveState S st (sa_runID a) key data = (None, st') \<longrightarrow>
       stateAccessor_Set S marshal a st key v =
         (None, a\<lparr>cache := (cache a)(key \<mapsto> data)\<rparr>, st'))
   \<and> (\<forall>data st' err. marshal v = Inr data
         \<and> store_SaveState S st (sa_runID a) key data = (Some err, st') \<longrightarrow>
       stateAccessor_Set S marshal a st key v =
         (Some (Wrapf (''failed to save state for key '' @ key) err),
          a\<lparr>cache := (cache a)(key \<mapsto> data)\<rparr>, st'))
   \<and> (\<forall>data. marshal v = Inr data \<longrightarrow>
       (\<exists>s'. stateAccessor_Set MemoryStore_methods marshal a s key v =
                (None, a\<lparr>cache := (cache a)(key \<mapsto> data)\<rparr>, s')
            \<and> LoadState s' (sa_runID a) key = Inr data))"
  using Set_marshal_fails [of marshal v _ S a st key]
    Set_store_ok [of marshal v _ S st a key]
    Set_store_fails [of marshal v _ S st a key]
    Set_MemoryStore [of marshal v _ a s key]
  by blast

text \<open>
  The theorem on a fresh accessor setting key \<open>k\<close> to \<open>true\<close>: over the empty in-memory
  store the call succeeds and cache and store hold \<open>true\<close>; over a LibSQL store whose
  connection has been closed the call fails and the cache holds \<open>true\<close> all the same.
\<close>

theorem Set_writes_cache_then_store_witness:
  "marshal_bool True = Inr ''true''
   \<and> store_SaveState LibSQLStore_methods (snd (LibSQLStore_Close NewSqlDB))
        (sa_runID (NewStateAccessor ''run-1'')) ''k'' ''true''
       = (Some (Wrapf ''failed to save state'' (LibraryError ''sql: database is closed'')),
          snd (LibSQLStore_Close NewSqlDB))
   \<and> stateAccessor_Set LibSQLStore_methods marshal_bool (NewStateAccessor ''run-1'')
        (snd (LibSQLStore_Close NewSqlDB)) ''k'' True
       = (Some (Wrapf ''failed to save state for key k''
                  (Wrapf ''failed to save state'' (LibraryError ''sql: database is closed''))),
          (NewStateAccessor ''run-1'')\<lparr>cache := (cache (NewStateAccessor ''run-1''))(''k'' \<mapsto> ''true'')\<rparr>,
          snd (LibSQLStore_Close NewSqlDB))
   \<and> (\<exists>s'. stateAccessor_Set MemoryStore_methods marshal_bool (NewStateAccessor ''run-1'')
               NewMemoryStore ''k'' True
              = (None,
                 (NewStateAccessor ''run-1'')\<lparr>cache := (cache (NewStateAccessor ''run-1''))(''k'' \<mapsto> ''true'')\<rparr>,
                 s')
          \<and> LoadState s' (sa_runID (NewStateAccessor ''run-1'')) ''k'' = Inr ''true'')"
proof -
  have m: "marshal_bool True = Inr ''true''"
    by (simp add: marshal_bool_def)
  have f: "store_SaveState LibSQLStore_methods (snd (LibSQLStore_Close NewSqlDB))
        (sa_runID (NewStateAccessor ''run-1'')) ''k'' ''true''
       = (Some (Wrapf ''failed to save state'' (LibraryError ''sql: database is closed'')),
          snd (LibSQLStore_Close NewSqlDB))"
    by (simp add: LibSQLStore_methods_def LibSQLStore_SaveState_def LibSQLStore_Close_def)
  show ?thesis
    using m f
      Set_writes_cache_then_store [of marshal_bool True LibSQLStore_methods
        "NewStateAccessor ''run-1''" "snd (LibSQLStore_Close NewSqlDB)" "''k''" NewMemoryStore]
    by simp
qed

text \<open>
  Claim C1 as stated fails: over a LibSQL store whose connection has been closed, \<open>Set\<close>
  returns an error, and the cache entry for the key, empty before the call, holds the
  new bytes after it.
\<close>

theorem Set_failed_write_updates_cache_counterexample:
  "fst (stateAccessor_Set LibSQLStore_methods marshal_bool (NewStateAccessor ''run-1'')
          (snd (LibSQLStore_Close NewSqlDB)) ''k'' True)
     = Some (Wrapf ''failed to save state for key k''
               (Wrapf ''failed to save state'' (LibraryError ''sql: database is closed'')))
   \<and> cache (NewStateAccessor ''run-1'') ''k'' = None
   \<and> cache (fst (snd (stateAccessor_Set LibSQLStore_methods marshal_bool
                         (NewStateAccessor ''run-1'')
                         (snd (LibSQLStore_Close NewSqlDB)) ''k'' True))) ''k''
     = Some ''true''"
  by (simp add: stateAccessor_Set_def marshal_bool_def NewStateAccessor_def
      LibSQLStore_methods_def LibSQLStore_SaveState_def LibSQLStore_Close_def Let_def)

text \<open>
  Claim C7.  For a state accessor over any store and a value that round-trips through
  JSON: when \<open>Set\<close> of a key succeeds, the \<open>Get\<close> of that key that follows returns the
  value.  For a state accessor over the in-memory store or the LibSQL store: when
  \<open>Delete\<close> of a key succeeds, the \<open>Has\<close> of that key that follows returns false.
\<close>

theorem Set_Get_and_Delete_Has:
  "(json_roundtrip marshal unmarshal v
      \<and> stateAccessor_Set S marshal a st key v = (None, a', st') \<longrightarrow>
    stateAccessor_Get S unmarshal a' st' key = (Inr v, a', st'))
   \<and> (stateAccessor_Delete MemoryStore_methods b s key = (None, b', s') \<longrightarrow>
       stateAccessor_Has MemoryStore_methods b' s' key = (False, b', s'))
   \<and> (stateAccessor_Delete LibSQLStore_methods c db key = (None, c', db') \<longrightarrow>
       stateAccessor_Has LibSQLStore_methods c' db' key = (False, c', db'))"
  using Set_Get [of marshal unmarshal v S a st key a' st']
    Delete_Has_MemoryStore [of b s key b' s']
    Delete_Has_LibSQLStore [of c db key c' db']
  by blast

text \<open>
  The theorem on fresh accessors for run \<open>run-1\<close>: over the empty in-memory store, setting
  \<open>k\<close> to \<open>true\<close> and getting it gives \<open>true\<close>; after that, in both stores, deleting \<open>k\<close>
  makes \<open>Has\<close> answer false.
\<close>

theorem Set_Get_and_Delete_Has_witness:
  "json_roundtrip marshal_bool unmarshal_bool True
   \<and> fst (stateAccessor_Set MemoryStore_methods marshal_bool (NewStateAccessor ''run-1'')
            NewMemoryStore ''k'' True) = None
   \<and> fst (stateAccessor_Get MemoryStore_methods unmarshal_bool
            (fst (snd (stateAccessor_Set MemoryStore_methods marshal_bool
                         (NewStateAccessor ''run-1'') NewMemoryStore ''k'' True)))
            (snd (snd (stateAccessor_Set MemoryStore_methods marshal_bool
                         (NewStateAccessor ''run-1'') NewMemoryStore ''k'' True)))
            ''k'') = Inr True
   \<and> fst (stateAccessor_Delete MemoryStore_methods (NewStateAccessor ''run-1'')
            (snd (SaveState NewMemoryStore ''run-1'' ''k'' ''true'')) ''k'') = None
   \<and> fst (stateAccessor_Has MemoryStore_methods
            (fst (snd (stateAccessor_Delete MemoryStore_methods (NewStateAccessor ''run-1'')
                         (snd (SaveState NewMemoryStore ''run-1'' ''k'' ''true'')) ''k'')))
            (snd (snd (stateAccessor_Delete MemoryStore_methods (NewStateAccessor ''run-1'')
                         (snd (SaveState NewMemoryStore ''run-1'' ''k'' ''true'')) ''k'')))
            ''k'') = False
   \<and> fst (stateAccessor_Delete LibSQLStore_methods (NewStateAccessor ''run-1'')
            (snd (LibSQLStore_SaveState NewSqlDB ''run-1'' ''k'' ''true'')) ''k'') = None
   \<and> fst (stateAccessor_Has LibSQLStore_methods
            (fst (snd (stateAccessor_Delete LibSQLStore_methods (NewStateAccessor ''run-1'')
                         (snd (LibSQLStore_SaveState NewSqlDB ''run-1'' ''k'' ''true'')) ''k'')))
            (snd (snd (stateAccessor_Delete LibSQLStore_methods (NewStateAccessor ''run-1'')
                         (snd (LibSQLStore_SaveState NewSqlDB ''run-1'' ''k'' ''true'')) ''k'')))
            ''k'') = False"
proof -
  let ?set = "stateAccessor_Set MemoryStore_methods marshal_bool (NewStateAccessor ''run-1'')
                NewMemoryStore ''k'' True"
  let ?delM = "stateAccessor_Delete MemoryStore_methods (NewStateAccessor ''run-1'')
                 (snd (SaveState NewMemoryStore ''run-1'' ''k'' ''true'')) ''k''"
  let ?delL = "stateAccessor_Delete LibSQLStore_methods (NewStateAccessor ''run-1'')
                 (snd (LibSQLStore_SaveState NewSqlDB ''run-1'' ''k'' ''true'')) ''k''"
  have r: "json_roundtrip marshal_bool unmarshal_bool True"
    by (simp add: json_roundtrip_def marshal_bool_def unmarshal_bool_def)
  have s: "fst ?set = None"
    by (simp add: stateAccessor_Set_def marshal_bool_def MemoryStore_methods_def SaveState_def
        Let_def)
  have dm: "fst ?delM = None"
    by (simp add: stateAccessor_Delete_def MemoryStore_methods_def DeleteState_def Let_def
        split: option.splits)
  have dl: "fst ?delL = None"
    by (simp add: stateAccessor_Delete_def LibSQLStore_methods_def LibSQLStore_DeleteState_def
        LibSQLStore_SaveState_def NewSqlDB_def Let_def)
  have s': "?set = (None, fst (snd ?set), snd (snd ?set))"
    using s by (metis prod.collapse)
  have dm': "?delM = (None, fst (snd ?delM), snd (snd ?delM))"
    using dm by (metis prod.collapse)
  have dl': "?delL = (None, fst (snd ?delL), snd (snd ?delL))"
    using dl by (metis prod.collapse)
  note t = Set_Get_and_Delete_Has [of marshal_bool unmarshal_bool True MemoryStore_methods
      "NewStateAccessor ''run-1''" NewMemoryStore "''k''" "fst (snd ?set)" "snd (snd ?set)"
      "NewStateAccessor ''run-1''" "snd (SaveState NewMemoryStore ''run-1'' ''k'' ''true'')"
      "fst (snd ?delM)" "snd (snd ?delM)"
      "NewStateAccessor ''run-1''" "snd (LibSQLStore_SaveState NewSqlDB ''run-1'' ''k'' ''true'')"
      "fst (snd ?delL)" "snd (snd ?delL)"]
  have g: "stateAccessor_Get MemoryStore_methods unmarshal_bool (fst (snd ?set)) (snd (snd ?set))
             ''k'' = (Inr True, fst (snd ?set), snd (snd ?set))"
    using t r s' by blast
  have hm: "stateAccessor_Has MemoryStore_methods (fst (snd ?delM)) (snd (snd ?delM)) ''k''
             = (False, fst (snd ?delM), snd (snd ?delM))"
    using t dm' by blast
  have hl: "stateAccessor_Has LibSQLStore_methods (fst (snd ?delL)) (snd (snd ?delL)) ''k''
             = (False, fst (snd ?delL), snd (snd ?delL))"
    using t dl' by blast
  show ?thesis
    using r s dm dl g hm hl by simp
qed

subsection \<open>The step data accessor\<close>

lemma GetOutput_cached:
  assumes "outputCache a stepID = Some data"
  shows "stepAccessor_GetOutput S unmarshal a st stepID = (unmarshal data, a, st)"
  using assms by (simp add: stepAccessor_GetOutput_def)

lemma HasOutput_cached:
  assumes "outputCache a stepID = Some data"
  shows "stepAccessor_HasOutput S a st stepID = (True, a, st)"
  using assms by (simp add: stepAccessor_HasOutput_def)

lemma GetOutput_success_cache:
  assumes "stepAccessor_GetOutput S unmarshal a st stepID = (Inr v, a1, st1)"
  shows "\<exists>data. outputCache a1 stepID = Some data \<and> unmarshal data = Inr v"
  using assms
  by (auto simp add: stepAccessor_GetOutput_def Let_def
      split: option.splits sum.splits prod.splits)

lemma GetOutput_keeps_cache:
  assumes "outputCache a stepID = Some data"
  shows "outputCache (fst (snd (stepAccessor_GetOutput S unmarshal a st other))) stepID = Some data"
  using assms
  by (auto simp add: stepAccessor_GetOutput_def Let_def
      split: option.splits sum.splits prod.splits)

lemma HasOutput_keeps_cache:
  assumes "outputCache a stepID = Some data"
  shows "outputCache (fst (snd (stepAccessor_HasOutput S a st other))) stepID = Some data"
  using assms
  by (auto simp add: stepAccessor_HasOutput_def split: option.splits sum.splits prod.splits)

lemma do_event_keeps_cache:
  assumes "outputCache (fst c) stepID = Some data"
  shows "outputCache (fst (do_event S unmarshal c e)) stepID = Some data"
proof (cases c)
  case (Pair a st)
  then show ?thesis using assms
    by (cases e) (simp_all add: GetOutput_keeps_cache HasOutput_keeps_cache)
qed

lemma do_events_keeps_cache:
  assumes "outputCache (fst c) stepID = Some data"
  shows "outputCache (fst (do_events S unmarshal c es)) stepID = Some data"
  using assms by (induction es arbitrary: c) (simp_all add: do_event_keeps_cache)

lemma do_events_append:
  "do_events S unmarshal c (es @ es') = do_events S unmarshal (do_events S unmarshal c es) es'"
  by (induction es arbitrary: c) simp_all

lemma GetOutput_stable:
  assumes "stepAccessor_GetOutput S unmarshal a st stepID = (Inr v, a1, st1)"
    and "do_events S unmarshal (a1, st1) es = (a2, st2)"
  shows "stepAccessor_GetOutput S unmarshal a2 st2 stepID = (Inr v, a2, st2)"
    and "stepAccessor_HasOutput S a2 st2 stepID = (True, a2, st2)"
proof -
  obtain data where d: "outputCache a1 stepID = Some data" "unmarshal data = Inr v"
    using GetOutput_success_cache [OF assms(1)] by blast
  have "outputCache (fst (do_events S unmarshal (a1, st1) es)) stepID = Some data"
    by (rule do_events_keeps_cache) (simp add: d(1))
  then have c: "outputCache a2 stepID = Some data" using assms(2) by simp
  show "stepAccessor_GetOutput S unmarshal a2 st2 stepID = (Inr v, a2, st2)"
    by (simp add: GetOutput_cached [OF c] d(2))
  show "stepAccessor_HasOutput S a2 st2 stepID = (True, a2, st2)"
    by (rule HasOutput_cached [OF c])
qed

text \<open>
  Claim C9.  Once \<open>GetOutput\<close> of a step has succeeded on a step data accessor, then
  after any sequence of further \<open>GetOutput\<close> and \<open>HasOutput\<close> calls on the accessor, for
  any steps, and of changes to the store made by others, \<open>GetOutput\<close> of that step
  returns the same value and \<open>HasOutput\<close> of that step returns true, whatever the store
  holds, and both leave the accessor and the store as they are: they are answered from
  the cached bytes and do not call the store.  In particular the value survives an
  upsert of another output for the step.
\<close>

theorem GetOutput_answered_from_cache:
  assumes "stepAccessor_GetOutput S unmarshal a st stepID = (Inr v, a1, st1)"
    and "do_events S unmarshal (a1, st1) es = (a2, st2)"
  shows "stepAccessor_GetOutput S unmarshal a2 st2 stepID = (Inr v, a2, st2)
       \<and> stepAccessor_HasOutput S a2 st2 stepID = (True, a2, st2)
       \<and> stepAccessor_GetOutput S unmarshal a2
             (snd (store_SaveStepOutput S st2 (sta_runID a2) stepID b)) stepID
           = (Inr v, a2, snd (store_SaveStepOutput S st2 (sta_runID a2) stepID b))
       \<and> (\<forall>st3. stepAccessor_GetOutput S unmarshal a2 st3 stepID = (Inr v, a2, st3)
                 \<and> stepAccessor_HasOutput S a2 st3 stepID = (True, a2, st3))"
proof -
  have any: "stepAccessor_GetOutput S unmarshal a2 st3 stepID = (Inr v, a2, st3)
      \<and> stepAccessor_HasOutput S a2 st3 stepID = (True, a2, st3)" for st3
  proof -
    have "do_events S unmarshal (a1, st1) (es @ [EvStoreChange (\<lambda>x. st3)]) = (a2, st3)"
      using assms(2) by (simp add: do_events_append)
    then show ?thesis using GetOutput_stable [OF assms(1)] by blast
  qed
  show ?thesis
    using any [of st2] any [of "snd (store_SaveStepOutput S st2 (sta_runID a2) stepID b)"] any
    by blast
qed

text \<open>
  The theorem on a fresh accessor over an in-memory store that holds the output \<open>true\<close>
  for step \<open>step-1\<close>: the first \<open>GetOutput\<close> gives \<open>true\<close>; the output is then overwritten
  in the store with \<open>false\<close> and another step is asked for; the store now holds \<open>false\<close>,
  and the accessor still answers \<open>true\<close>.
\<close>

theorem GetOutput_answered_from_cache_witness:
  "stepAccessor_GetOutput MemoryStore_methods unmarshal_bool (newStepAccessor ''run-1'')
      (snd (SaveStepOutput NewMemoryStore ''run-1'' ''step-1'' ''true'')) ''step-1''
     = (Inr True,
        (newStepAccessor ''run-1'')\<lparr>outputCache := [''step-1'' \<mapsto> ''true'']\<rparr>,
        snd (SaveStepOutput NewMemoryStore ''run-1'' ''step-1'' ''true''))
   \<and> LoadStepOutput
        (snd (do_events MemoryStore_methods unmarshal_bool
                ((newStepAccessor ''run-1'')\<lparr>outputCache := [''step-1'' \<mapsto> ''true'']\<rparr>,
                 snd (SaveStepOutput NewMemoryStore ''run-1'' ''step-1'' ''true''))
                [EvStoreChange (\<lambda>s. snd (SaveStepOutput s ''run-1'' ''step-1'' ''false'')),
                 EvHasOutput ''step-2'']))
        ''run-1'' ''step-1'' = Inr ''false''
   \<and> fst (stepAccessor_GetOutput MemoryStore_methods unmarshal_bool
        (fst (do_events MemoryStore_methods unmarshal_bool
                ((newStepAccessor ''run-1'')\<lparr>outputCache := [''step-1'' \<mapsto> ''true'']\<rparr>,
                 snd (SaveStepOutput NewMemoryStore ''run-1'' ''step-1'' ''true''))
                [EvStoreChange (\<lambda>s. snd (SaveStepOutput s ''run-1'' ''step-1'' ''false'')),
                 EvHasOutput ''step-2'']))
        (snd (do_events MemoryStore_methods unmarshal_bool
                ((newStepAccessor ''run-1'')\<lparr>outputCache := [''step-1'' \<mapsto> ''true'']\<rparr>,
                 snd (SaveStepOutput NewMemoryStore ''run-1'' ''step-1'' ''true''))
                [EvStoreChange (\<lambda>s. snd (SaveStepOutput s ''run-1'' ''step-1'' ''false'')),
                 EvHasOutput ''step-2'']))
        ''step-1'') = Inr True"
proof -
  let ?a0 = "newStepAccessor ''run-1''"
  let ?st0 = "snd (SaveStepOutput NewMemoryStore ''run-1'' ''step-1'' ''true'')"
  let ?a1 = "?a0\<lparr>outputCache := [''step-1'' \<mapsto> ''true'']\<rparr>"
  let ?es = "[EvStoreChange (\<lambda>s. snd (SaveStepOutput s ''run-1'' ''step-1'' ''false'')),
              EvHasOutput ''step-2'']"
  let ?c = "do_events MemoryStore_methods unmarshal_bool (?a1, ?st0) ?es"
  have h1: "stepAccessor_GetOutput MemoryStore_methods unmarshal_bool ?a0 ?st0 ''step-1''
              = (Inr True, ?a1, ?st0)"
    by (simp add: stepAccessor_GetOutput_def newStepAccessor_def MemoryStore_methods_def
        SaveStepOutput_def LoadStepOutput_def NewMemoryStore_def unmarshal_bool_def Let_def
        copy_bytes_def)
  have h2: "?c = (fst ?c, snd ?c)"
    by simp
  have l: "LoadStepOutput (snd ?c) ''run-1'' ''step-1'' = Inr ''false''"
    by (simp add: stepAccessor_HasOutput_def newStepAccessor_def MemoryStore_methods_def
        SaveStepOutput_def LoadStepOutput_def NewMemoryStore_def Let_def copy_bytes_def)
  show ?thesis
    using h1 l GetOutput_answered_from_cache [OF h1 h2] by simp
qed


section \<open>Properties of the builder\<close>

lemma inherit_idem: "inherit d (inherit d step) = inherit d step"
  by (simp add: inherit_def)

lemma Build_steps_result:
  assumes "Build_steps w ids = (None, w')"
  shows "wf_config w' = wf_config w \<and> wf_graph w' = wf_graph w \<and>
         (\<forall>stepID. wf_steps w' stepID =
            (if stepID \<in> set ids then map_option (inherit (wf_config w)) (wf_steps w stepID)
             else wf_steps w stepID))"
  using assms
proof (induction ids arbitrary: w)
  case Nil
  then show ?case by simp
next
  case (Cons i rest)
  from Cons.prems obtain step where st: "wf_steps w i = Some step"
    by (auto simp add: Workflow_GetStep_def split: option.splits)
  define w1 where "w1 = w\<lparr>wf_steps := (wf_steps w)(i \<mapsto> inherit (wf_config w) step)\<rparr>"
  have step1: "(if Step_GetConfig step = DefaultExecutionConfig
           then w\<lparr>wf_steps := (wf_steps w)(i \<mapsto> Step_SetConfig step (Workflow_GetConfig w))\<rparr>
           else w) = w1"
  proof (cases "step_Config step = DefaultExecutionConfig")
    case True
    then show ?thesis
      by (simp add: w1_def inherit_def Step_GetConfig_def Step_SetConfig_def Workflow_GetConfig_def)
  next
    case False
    then have "inherit (wf_config w) step = step" by (simp add: inherit_def)
    then have "(wf_steps w)(i \<mapsto> inherit (wf_config w) step) = wf_steps w"
      using st by (auto simp add: fun_upd_idem)
    then show ?thesis using False by (simp add: w1_def Step_GetConfig_def)
  qed
  have rest: "Build_steps w1 rest = (None, w')"
    using Cons.prems st step1 by (simp add: Workflow_GetStep_def)
  have c1: "wf_config w1 = wf_config w" and g1: "wf_graph w1 = wf_graph w"
    by (simp_all add: w1_def)
  have s1: "wf_steps w1 = (wf_steps w)(i \<mapsto> inherit (wf_config w) step)"
    by (simp add: w1_def)
  from Cons.IH [OF rest]
  have ih: "wf_config w' = wf_config w1" "wf_graph w' = wf_graph w1"
    "\<And>stepID. wf_steps w' stepID =
       (if stepID \<in> set rest then map_option (inherit (wf_config w1)) (wf_steps w1 stepID)
        else wf_steps w1 stepID)"
    by simp_all
  have "wf_steps w' stepID =
          (if stepID \<in> set (i # rest) then map_option (inherit (wf_config w)) (wf_steps w stepID)
           else wf_steps w stepID)" for stepID
    unfolding ih(3) c1 s1 using st by (simp add: inherit_idem)
  then show ?case using ih(1,2) c1 g1 by simp
qed

lemma Build_result:
  assumes "Build Validate b = (Inr w, b')"
  shows "Build_steps (workflow b) (map fst (Nodes (wf_graph (workflow b)))) = (None, w)"
    and "workflow b' = w"
  using assms
  by (auto simp add: Build_def split: option.splits prod.splits)

text \<open>
  Claim C8.  When \<open>Build\<close> succeeds, the workflow it returns has the default config of the
  builder's workflow, and for every step that is a node of the graph: if its config
  equals \<open>DefaultExecutionConfig\<close> it now carries the workflow's default config, and
  otherwise it carries the config it had; nothing else of the step changes.  The config is
  held by value: replacing the workflow's default config afterwards leaves every step as
  it is.  A step that is no node of the graph is left as it was.
\<close>

theorem Build_config_inheritance:
  assumes "Build Validate b = (Inr w, b')"
  shows "workflow b' = w
       \<and> Workflow_GetConfig w = Workflow_GetConfig (workflow b)
       \<and> (\<forall>stepID step.
             stepID \<in> fst ` set (Nodes (wf_graph (workflow b)))
             \<and> wf_steps (workflow b) stepID = Some step \<longrightarrow>
             wf_steps w stepID =
               Some (step\<lparr>step_Config :=
                       (if Step_GetConfig step = DefaultExecutionConfig
                        then Workflow_GetConfig (workflow b)
                        else Step_GetConfig step)\<rparr>))
       \<and> (\<forall>stepID. stepID \<notin> fst ` set (Nodes (wf_graph (workflow b))) \<longrightarrow>
             wf_steps w stepID = wf_steps (workflow b) stepID)
       \<and> (\<forall>config. wf_steps (Workflow_SetConfig w config) = wf_steps w)"
proof -
  note br = Build_result(1) [OF assms]
  note r = Build_steps_result [OF br]
  have "wf_steps w stepID = Some (step\<lparr>step_Config :=
                       (if Step_GetConfig step = DefaultExecutionConfig
                        then Workflow_GetConfig (workflow b)
                        else Step_GetConfig step)\<rparr>)"
    if "stepID \<in> fst ` set (Nodes (wf_graph (workflow b)))
        \<and> wf_steps (workflow b) stepID = Some step" for stepID step
    using r that by (simp add: inherit_def Step_GetConfig_def Workflow_GetConfig_def)
  moreover have "wf_steps w stepID = wf_steps (workflow b) stepID"
    if "stepID \<notin> fst ` set (Nodes (wf_graph (workflow b)))" for stepID
    using r that by simp
  moreover have "Workflow_GetConfig w = Workflow_GetConfig (workflow b)"
    using r by (simp add: Workflow_GetConfig_def)
  moreover have "wf_steps (Workflow_SetConfig w config) = wf_steps w" for config
    by (simp add: Workflow_SetConfig_def)
  ultimately show ?thesis using Build_result(2) [OF assms] by blast
qed

text \<open>
  The theorem on a workflow whose default config asks for 5 retries, with step \<open>a\<close> on
  the default config and step \<open>b\<close> configured with a timeout of 60 seconds: after
  \<open>Build\<close>, \<open>a\<close> carries the workflow's config and \<open>b\<close> its own.
\<close>

theorem Build_config_inheritance_witness:
  "(\<exists>w b'. Build (\<lambda>g. None)
              (sample_builder (DefaultExecutionConfig\<lparr>MaxRetries := 5\<rparr>)
                 (sample_step ''a'' DefaultExecutionConfig)
                 (sample_step ''b'' (DefaultExecutionConfig\<lparr>TimeoutSeconds := 60\<rparr>)))
            = (Inr w, b')
        \<and> wf_steps w ''a''
            = Some (sample_step ''a'' (DefaultExecutionConfig\<lparr>MaxRetries := 5\<rparr>))
        \<and> wf_steps w ''b''
            = Some (sample_step ''b'' (DefaultExecutionConfig\<lparr>TimeoutSeconds := 60\<rparr>)))"
proof -
  let ?b = "sample_builder (DefaultExecutionConfig\<lparr>MaxRetries := 5\<rparr>)
                 (sample_step ''a'' DefaultExecutionConfig)
                 (sample_step ''b'' (DefaultExecutionConfig\<lparr>TimeoutSeconds := 60\<rparr>))"
  have ne: "DefaultExecutionConfig\<lparr>TimeoutSeconds := 60\<rparr> \<noteq> DefaultExecutionConfig"
    by (simp add: DefaultExecutionConfig_def)
  obtain r b' where rb: "Build (\<lambda>g. None) ?b = (r, b')"
    by (cases "Build (\<lambda>g. None) ?b") auto
  have "\<exists>w. r = Inr w"
    using rb
    by (auto simp add: Build_def sample_builder_def sample_step_def Workflow_GetStep_def
        split: prod.splits option.splits if_splits)
  then obtain w where h: "Build (\<lambda>g. None) ?b = (Inr w, b')"
    using rb by blast
  have n: "fst ` set (Nodes (wf_graph (workflow ?b))) = {''a'', ''b''}"
    by (auto simp add: sample_builder_def sample_step_def)
  have sa: "wf_steps (workflow ?b) ''a'' = Some (sample_step ''a'' DefaultExecutionConfig)"
    by (simp add: sample_builder_def sample_step_def)
  have sb: "wf_steps (workflow ?b) ''b''
              = Some (sample_step ''b'' (DefaultExecutionConfig\<lparr>TimeoutSeconds := 60\<rparr>))"
    by (simp add: sample_builder_def sample_step_def)
  have c: "Workflow_GetConfig (workflow ?b) = DefaultExecutionConfig\<lparr>MaxRetries := 5\<rparr>"
    by (simp add: sample_builder_def Workflow_GetConfig_def)
  note t = Build_config_inheritance [OF h]
  have "wf_steps w ''a'' = Some (sample_step ''a'' (DefaultExecutionConfig\<lparr>MaxRetries := 5\<rparr>))"
    using t n sa c by (simp add: sample_step_def Step_GetConfig_def)
  moreover have "wf_steps w ''b''
        = Some (sample_step ''b'' (DefaultExecutionConfig\<lparr>TimeoutSeconds := 60\<rparr>))"
    using t n sb c ne by (simp add: sample_step_def Step_GetConfig_def)
  ultimately show ?thesis using h by blast
qed

end
